theory Spec2Isabelle
  imports Complex_Main "HOL-Library.Word"
begin

section \<open>Pixel buffers\<close>

text \<open>
  The embedding follows \<^verbatim>\<open>app/core/gimpimagemap.c\<close> and \<^verbatim>\<open>app/core/gimpdrawable.c\<close>.
  A \<^verbatim>\<open>gint\<close> is an \<open>int\<close>: coordinates and sizes stay far from the ends of the
  32-bit range, where C leaves signed arithmetic undefined. A pixel is the list of
  its bytes in the buffer's format; a format (\<^verbatim>\<open>const Babl *\<close>) is compared by
  identity only, so it is a name.
\<close>

type_synonym pixel = "8 word list"

type_synonym babl = string

record gegl_rectangle =
  rect_x :: int
  rect_y :: int
  rect_width :: int
  rect_height :: int

definition GEGL_RECTANGLE :: "int \<Rightarrow> int \<Rightarrow> int \<Rightarrow> int \<Rightarrow> gegl_rectangle" where
  "GEGL_RECTANGLE x y w h = \<lparr>rect_x = x, rect_y = y, rect_width = w, rect_height = h\<rparr>"

definition in_rectangle :: "gegl_rectangle \<Rightarrow> int \<times> int \<Rightarrow> bool" where
  "in_rectangle r p =
     (rect_x r \<le> fst p \<and> fst p < rect_x r + rect_width r \<and>
      rect_y r \<le> snd p \<and> snd p < rect_y r + rect_height r)"

text \<open>
  A \<^verbatim>\<open>GeglBuffer\<close> of this program always has its extent at the origin
  (\<^verbatim>\<open>GEGL_RECTANGLE (0, 0, width, height)\<close>). GEGL is a library outside the repository;
  the four operations the code calls are modelled as GEGL documents them.
\<close>

record gegl_buffer =
  buf_width :: int
  buf_height :: int
  buf_format :: babl
  buf_pixels :: "int \<times> int \<Rightarrow> pixel"

definition abyss_pixel :: pixel where
  "abyss_pixel = []"

definition gegl_buffer_get_extent :: "gegl_buffer \<Rightarrow> gegl_rectangle" where
  "gegl_buffer_get_extent b = GEGL_RECTANGLE 0 0 (buf_width b) (buf_height b)"

definition gegl_buffer_new :: "gegl_rectangle \<Rightarrow> babl \<Rightarrow> gegl_buffer" where
  "gegl_buffer_new r format =
     \<lparr>buf_width = rect_width r, buf_height = rect_height r, buf_format = format,
      buf_pixels = (\<lambda>p. abyss_pixel)\<rparr>"

text \<open>\<^verbatim>\<open>gegl_buffer_sample\<close> with \<^verbatim>\<open>GEGL_SAMPLER_NEAREST\<close> and \<^verbatim>\<open>GEGL_ABYSS_NONE\<close>:
  outside the extent the sample is the empty pixel.\<close>

definition gegl_buffer_sample :: "gegl_buffer \<Rightarrow> int \<times> int \<Rightarrow> pixel" where
  "gegl_buffer_sample b p =
     (if in_rectangle (gegl_buffer_get_extent b) p then buf_pixels b p else abyss_pixel)"

text \<open>A copy between buffers of one format moves the bytes; between two formats babl
  converts them. The conversion \<open>fish\<close> belongs to the babl library; the state carries it.\<close>

definition babl_process :: "(babl \<Rightarrow> babl \<Rightarrow> pixel \<Rightarrow> pixel) \<Rightarrow> babl \<Rightarrow> babl \<Rightarrow> pixel \<Rightarrow> pixel" where
  "babl_process fish src dst px = (if src = dst then px else fish src dst px)"

text \<open>\<^verbatim>\<open>gegl_buffer_copy (src, src_rect, dst, dst_rect)\<close>: the pixels of \<open>src_rect\<close> go to
  \<open>dst\<close> with the upper left corner at \<open>dst_rect\<close>'s position; the size of \<open>dst_rect\<close> is
  not read, and nothing is written outside the extent of \<open>dst\<close>.\<close>

definition gegl_buffer_copy ::
  "(babl \<Rightarrow> babl \<Rightarrow> pixel \<Rightarrow> pixel) \<Rightarrow> gegl_buffer \<Rightarrow> gegl_rectangle \<Rightarrow> gegl_buffer \<Rightarrow> gegl_rectangle
     \<Rightarrow> gegl_buffer" where
  "gegl_buffer_copy fish src src_rect dst dst_rect =
     dst\<lparr>buf_pixels := (\<lambda>p.
        if in_rectangle (gegl_buffer_get_extent dst) p \<and>
           in_rectangle (GEGL_RECTANGLE (rect_x dst_rect) (rect_y dst_rect)
                           (rect_width src_rect) (rect_height src_rect)) p
        then babl_process fish (buf_format src) (buf_format dst)
               (gegl_buffer_sample src (fst p - rect_x dst_rect + rect_x src_rect,
                                        snd p - rect_y dst_rect + rect_y src_rect))
        else buf_pixels dst p)\<rparr>"

section \<open>Objects\<close>

datatype gimp_layer_mode_effects = GIMP_NORMAL_MODE | GIMP_REPLACE_MODE | GIMP_OTHER_MODE nat

record crop_node =
  crop_x :: int
  crop_y :: int
  crop_width :: int
  crop_height :: int

record translate_node =
  translate_x :: int
  translate_y :: int

record mode_node_props =
  node_mode :: gimp_layer_mode_effects
  node_opacity :: real

text \<open>
  \<^verbatim>\<open>GimpDrawable\<close> with the fields of \<^verbatim>\<open>GimpItem\<close> the code reads through
  \<^verbatim>\<open>gimp_item_get_*\<close> and those of \<^verbatim>\<open>GimpDrawablePrivate\<close>. A node pointer that is
  \<^verbatim>\<open>NULL\<close> or not is a \<open>bool\<close>, or an \<open>option\<close> of the node's properties when the code
  sets them (the \<^verbatim>\<open>gdouble\<close> properties hold \<^verbatim>\<open>gint\<close> values, which the cast keeps
  exact). \<open>update_signals\<close> lists the emissions of the \<^verbatim>\<open>update\<close> signal.
\<close>

record gimp_drawable =
  item_attached :: bool
  item_visible :: bool
  item_width :: int
  item_height :: int
  item_offset_x :: int
  item_offset_y :: int
  item_node :: bool
  preview_freeze_count :: nat
  buffer :: gegl_buffer
  shadow :: "gegl_buffer option"
  source_node :: bool
  buffer_source_node :: bool
  fs_crop_node :: "crop_node option"
  fs_offset_node :: "translate_node option"
  fs_mode_node :: "mode_node_props option"
  mode_node :: bool
  floating_selection :: "nat option"
  update_signals :: "gegl_rectangle list"

text \<open>A \<^verbatim>\<open>GimpLayer\<close> that serves as floating selection: its item geometry, its mode and
  opacity, which of its nodes exist, and which handlers of the target drawable are
  connected to its signals. A floating selection has no floating selection of its own.\<close>

record gimp_layer =
  layer_offset_x :: int
  layer_offset_y :: int
  layer_width :: int
  layer_height :: int
  layer_mode :: gimp_layer_mode_effects
  layer_opacity :: real
  layer_source_node :: bool
  layer_offset_node :: bool
  layer_boundary_invalidations :: nat
  layer_notify_handler :: bool
  layer_update_handler :: bool

record drawable_undo =
  du_desc :: string
  du_buffer :: gegl_buffer
  du_x :: int
  du_y :: int

text \<open>The image owning the drawable: its selection mask (whether it is empty, its
  bounding box in the drawable's coordinates, which pixels it covers), its floating
  selection and its undo stack.\<close>

record gimp_image =
  mask_empty :: bool
  mask_bounds :: gegl_rectangle
  mask_coverage :: "int \<times> int \<Rightarrow> bool"
  image_floating_sel :: "nat option"
  undo_stack :: "drawable_undo list"

text \<open>
  What the GEGL processor will deliver: each chunk is a rectangle with the pixels the
  filter graph computes for it. The operation node (\<^verbatim>\<open>image_map->operation\<close>) is
  outside the repository: it is given by its pads and by the chunks its graph yields
  for an input buffer, a translation and a requested rectangle.
\<close>

record chunk =
  chunk_extent :: gegl_rectangle
  chunk_pixels :: "int \<times> int \<Rightarrow> pixel"

datatype pipeline = FilterPipeline | SourcePipeline | NopPipeline

record gegl_operation =
  has_input_pad :: bool
  has_output_pad :: bool
  render :: "pipeline \<Rightarrow> gegl_buffer \<Rightarrow> int \<times> int \<Rightarrow> gegl_rectangle \<Rightarrow> chunk list"

record gimp_image_map =
  undo_desc :: string
  undo_buffer :: "gegl_buffer option"
  undo_offset_x :: int
  undo_offset_y :: int
  gegl :: "pipeline option"
  operation :: gegl_operation
  processor :: "chunk list option"
  idle_id :: nat
  timer :: bool
  pixel_count :: "64 word"
  flush_signals :: nat

datatype g_log_level = G_LOG_LEVEL_CRITICAL | G_LOG_LEVEL_WARNING | G_LOG_LEVEL_MESSAGE

datatype gegl_node =
    ItemInputProxy | ItemOutputProxy | ModeNode
  | SourceOutputProxy | BufferSourceNode | FsCropNode | FsOffsetNode | FsModeNode
  | LayerSourceNode nat | LayerSourceOutputProxy nat | LayerBufferSourceNode nat
  | LayerOffsetNode nat

datatype gegl_graph = ItemGraph | SourceGraph | LayerItemGraph nat | LayerSourceGraph nat

text \<open>
  The state: the drawable, the layers by reference, the image, the image map of the
  drawable, the connections of the GEGL nodes (each input pad has at most one source)
  and the graph each child node belongs to, the idle sources of the GLib main loop, the
  log, and babl's conversions.
\<close>

record world =
  drawable :: gimp_drawable
  layers :: "nat \<Rightarrow> gimp_layer"
  gimage :: gimp_image
  image_map :: gimp_image_map
  connections :: "gegl_node \<times> string \<Rightarrow> (gegl_node \<times> string) option"
  node_parent :: "gegl_node \<Rightarrow> gegl_graph option"
  idle_sources :: "nat list"
  next_source_id :: nat
  g_log :: "(g_log_level \<times> string) list"
  babl_fish :: "babl \<Rightarrow> babl \<Rightarrow> pixel \<Rightarrow> pixel"

section \<open>Collaborators outside the sources\<close>

text \<open>Modelled from the spec: \<^verbatim>\<open>gimp_rectangle_intersect\<close> is not among the sources. The
  spec speaks of the intersection of two rectangles, which is empty or a rectangle;
  the result is \<open>None\<close> where the C function returns \<^verbatim>\<open>FALSE\<close>.\<close>

definition gimp_rectangle_intersect ::
  "int \<Rightarrow> int \<Rightarrow> int \<Rightarrow> int \<Rightarrow> int \<Rightarrow> int \<Rightarrow> int \<Rightarrow> int \<Rightarrow> gegl_rectangle option" where
  "gimp_rectangle_intersect x1 y1 width1 height1 x2 y2 width2 height2 =
     (let x = max x1 x2;
          y = max y1 y2;
          w = min (x1 + width1) (x2 + width2) - x;
          h = min (y1 + height1) (y2 + height2) - y
      in if w > 0 \<and> h > 0 then Some (GEGL_RECTANGLE x y w h) else None)"

text \<open>Modelled from the spec: \<^verbatim>\<open>gimp_item_mask_intersect\<close> is not among the sources. The
  spec (4.6) has the region clamped ``to the intersection of the drawable's bounds and
  the active selection's bounding box''.\<close>

definition gimp_item_mask_intersect :: "world \<Rightarrow> gegl_rectangle option" where
  "gimp_item_mask_intersect s =
     (let m = mask_bounds (gimage s)
      in gimp_rectangle_intersect (rect_x m) (rect_y m) (rect_width m) (rect_height m)
           0 0 (item_width (drawable s)) (item_height (drawable s)))"

text \<open>Modelled from the spec: \<^verbatim>\<open>gimp_drawable_get_shadow_buffer\<close> is not among the sources.
  The shadow buffer is the ``write destination for incremental filter output'': the
  drawable's own, allocated in the drawable's size and format when there is none.\<close>

definition gimp_drawable_get_shadow_buffer :: "world \<Rightarrow> gegl_buffer \<times> world" where
  "gimp_drawable_get_shadow_buffer s =
     (case shadow (drawable s) of
        Some b \<Rightarrow> (b, s)
      | None \<Rightarrow>
          (let b = gegl_buffer_new
                     (GEGL_RECTANGLE 0 0 (item_width (drawable s)) (item_height (drawable s)))
                     (buf_format (buffer (drawable s)))
           in (b, s\<lparr>drawable := (drawable s)\<lparr>shadow := Some b\<rparr>\<rparr>)))"

text \<open>Modelled from the spec: \<^verbatim>\<open>gimp_image_undo_push_drawable\<close> is not among the sources.
  The undo system ``accepts (description, buffer-snapshot, anchor-rect)''; the record
  goes on the image's undo stack.\<close>

definition gimp_image_undo_push_drawable :: "string \<Rightarrow> gegl_buffer \<Rightarrow> int \<Rightarrow> int \<Rightarrow> world \<Rightarrow> world" where
  "gimp_image_undo_push_drawable desc buf x y s =
     s\<lparr>gimage := (gimage s)\<lparr>undo_stack :=
          undo_stack (gimage s) @ [\<lparr>du_desc = desc, du_buffer = buf, du_x = x, du_y = y\<rparr>]\<rparr>\<rparr>"

definition GIMP_OPACITY_OPAQUE :: real where
  "GIMP_OPACITY_OPAQUE = 1"

text \<open>Modelled from the spec: \<^verbatim>\<open>gimp_drawable_real_apply_buffer\<close>, the \<^verbatim>\<open>apply_buffer\<close>
  method of the class, is not among the sources. The spec describes the one call the
  preview makes (4.5 step 2, section 2 and the design notes): the buffer's region is
  composed onto the drawable ``at full opacity, replace-mode, restricted to the chunk
  rectangle'', ``masked by the current selection'', that is ``only where selected''; an
  empty selection masks nothing. Coverage is taken as in or out. The region lands at
  \<open>(base_x, base_y)\<close>; undo, a base buffer and the other modes are not described and not
  interpreted.\<close>

definition gimp_drawable_real_apply_buffer ::
  "gegl_buffer \<Rightarrow> gegl_rectangle \<Rightarrow> bool \<Rightarrow> string option \<Rightarrow> real \<Rightarrow> gimp_layer_mode_effects
     \<Rightarrow> gegl_buffer option \<Rightarrow> int \<Rightarrow> int \<Rightarrow> world \<Rightarrow> world" where
  "gimp_drawable_real_apply_buffer buf buffer_region push_undo desc opacity mode base_buffer
       base_x base_y s =
     (let dst = buffer (drawable s);
          dst' = dst\<lparr>buf_pixels := (\<lambda>p.
             if in_rectangle (gegl_buffer_get_extent dst) p \<and>
                in_rectangle (GEGL_RECTANGLE base_x base_y
                                (rect_width buffer_region) (rect_height buffer_region)) p \<and>
                (mask_empty (gimage s) \<or> mask_coverage (gimage s) p)
             then babl_process (babl_fish s) (buf_format buf) (buf_format dst)
                    (gegl_buffer_sample buf (fst p - base_x + rect_x buffer_region,
                                             snd p - base_y + rect_y buffer_region))
             else buf_pixels dst p)\<rparr>
      in s\<lparr>drawable := (drawable s)\<lparr>buffer := dst'\<rparr>\<rparr>)"

text \<open>GLib: the log, and the idle sources of the main loop. A source id is never 0.\<close>

definition g_log_add :: "g_log_level \<Rightarrow> string \<Rightarrow> world \<Rightarrow> world" where
  "g_log_add level msg s = s\<lparr>g_log := g_log s @ [(level, msg)]\<rparr>"

definition g_idle_add :: "world \<Rightarrow> nat \<times> world" where
  "g_idle_add s =
     (let i = Suc (next_source_id s)
      in (i, s\<lparr>idle_sources := idle_sources s @ [i], next_source_id := i\<rparr>))"

definition g_source_remove :: "nat \<Rightarrow> world \<Rightarrow> world" where
  "g_source_remove i s = s\<lparr>idle_sources := removeAll i (idle_sources s)\<rparr>"

text \<open>GEGL: \<^verbatim>\<open>gegl_node_new_processor (node, rectangle)\<close> computes the rectangle and
  nothing outside it, in the chunks the operation's graph yields.\<close>

definition clip_chunk :: "gegl_rectangle \<Rightarrow> chunk \<Rightarrow> chunk option" where
  "clip_chunk r c =
     (let e = chunk_extent c
      in case gimp_rectangle_intersect (rect_x e) (rect_y e) (rect_width e) (rect_height e)
                (rect_x r) (rect_y r) (rect_width r) (rect_height r) of
           None \<Rightarrow> None
         | Some e' \<Rightarrow> Some (c\<lparr>chunk_extent := e'\<rparr>))"

definition gegl_node_new_processor ::
  "gegl_operation \<Rightarrow> pipeline \<Rightarrow> gegl_buffer option \<Rightarrow> int \<times> int \<Rightarrow> gegl_rectangle \<Rightarrow> chunk list" where
  "gegl_node_new_processor op links input tr r =
     (case input of
        None \<Rightarrow> []
      | Some b \<Rightarrow> List.map_filter (clip_chunk r) (render op links b tr r))"

section \<open>The drawable: \<^verbatim>\<open>gimpdrawable.c\<close>\<close>

text \<open>\<^verbatim>\<open>g_return_if_fail\<close>: a failed check logs a critical message and the function
  returns, having done nothing.\<close>

definition g_return_if_fail_warning :: "string \<Rightarrow> string \<Rightarrow> world \<Rightarrow> world" where
  "g_return_if_fail_warning func expr s =
     g_log_add G_LOG_LEVEL_CRITICAL (func @ '': assertion '' @ expr @ '' failed'') s"

definition gimp_drawable_get_format :: "world \<Rightarrow> babl" where
  "gimp_drawable_get_format s = buf_format (buffer (drawable s))"

text \<open>\<^verbatim>\<open>gimp_drawable_get_buffer\<close> dispatches to \<^verbatim>\<open>gimp_drawable_real_get_buffer\<close>, which
  flushes the buffer and returns it.\<close>

definition gimp_drawable_get_buffer :: "world \<Rightarrow> gegl_buffer" where
  "gimp_drawable_get_buffer s = buffer (drawable s)"

text \<open>\<^verbatim>\<open>gimp_drawable_update\<close> emits \<^verbatim>\<open>update\<close>; the class handler invalidates GEGL's
  cache of the buffer source and the preview, both outside the state.\<close>

definition gimp_drawable_update :: "int \<Rightarrow> int \<Rightarrow> int \<Rightarrow> int \<Rightarrow> world \<Rightarrow> world" where
  "gimp_drawable_update x y w h s =
     s\<lparr>drawable := (drawable s)\<lparr>update_signals :=
          update_signals (drawable s) @ [GEGL_RECTANGLE x y w h]\<rparr>\<rparr>"

definition gimp_drawable_get_pixel_at :: "int \<Rightarrow> int \<Rightarrow> babl \<Rightarrow> world \<Rightarrow> pixel option" where
  "gimp_drawable_get_pixel_at x y format s =
     (if x < 0 \<or> x \<ge> item_width (drawable s) \<or> y < 0 \<or> y \<ge> item_height (drawable s)
      then None
      else Some (babl_process (babl_fish s) (gimp_drawable_get_format s) format
                   (gegl_buffer_sample (gimp_drawable_get_buffer s) (x, y))))"

definition gimp_drawable_apply_buffer ::
  "gegl_buffer \<Rightarrow> gegl_rectangle \<Rightarrow> bool \<Rightarrow> string option \<Rightarrow> real \<Rightarrow> gimp_layer_mode_effects
     \<Rightarrow> gegl_buffer option \<Rightarrow> int \<Rightarrow> int \<Rightarrow> world \<Rightarrow> world" where
  "gimp_drawable_apply_buffer buf buffer_region push_undo desc opacity mode base_buffer
       base_x base_y s =
     (if \<not> item_attached (drawable s)
      then g_return_if_fail_warning ''gimp_drawable_apply_buffer''
             ''gimp_item_is_attached (GIMP_ITEM (drawable))'' s
      else gimp_drawable_real_apply_buffer buf buffer_region push_undo desc opacity mode
             base_buffer base_x base_y s)"

definition gimp_drawable_real_push_undo ::
  "string \<Rightarrow> gegl_buffer option \<Rightarrow> int \<Rightarrow> int \<Rightarrow> int \<Rightarrow> int \<Rightarrow> world \<Rightarrow> world" where
  "gimp_drawable_real_push_undo desc buf x y w h s =
     (let b = (case buf of
                 None \<Rightarrow>
                   gegl_buffer_copy (babl_fish s) (gimp_drawable_get_buffer s)
                     (GEGL_RECTANGLE x y w h)
                     (gegl_buffer_new (GEGL_RECTANGLE 0 0 w h) (gimp_drawable_get_format s))
                     (GEGL_RECTANGLE 0 0 0 0)
               | Some b' \<Rightarrow> b')
      in gimp_image_undo_push_drawable desc b x y s)"

definition gimp_drawable_push_undo ::
  "string \<Rightarrow> gegl_buffer option \<Rightarrow> int \<Rightarrow> int \<Rightarrow> int \<Rightarrow> int \<Rightarrow> world \<Rightarrow> world" where
  "gimp_drawable_push_undo desc buf x y w h s =
     (if \<not> item_attached (drawable s)
      then g_return_if_fail_warning ''gimp_drawable_push_undo'' ''gimp_item_is_attached (item)'' s
      else case buf of
        Some b \<Rightarrow> gimp_drawable_real_push_undo desc buf x y w h s
      | None \<Rightarrow>
          (case gimp_rectangle_intersect x y w h 0 0
                  (item_width (drawable s)) (item_height (drawable s)) of
             None \<Rightarrow>
               g_log_add G_LOG_LEVEL_WARNING
                 ''gimp_drawable_push_undo: tried to push empty region'' s
           | Some r \<Rightarrow>
               gimp_drawable_real_push_undo desc buf
                 (rect_x r) (rect_y r) (rect_width r) (rect_height r) s))"

section \<open>The image map: \<^verbatim>\<open>gimpimagemap.c\<close>\<close>

text \<open>\<^verbatim>\<open>gimp_image_map_new\<close> after \<^verbatim>\<open>gimp_image_map_init\<close>: \<open>None\<close> is the \<^verbatim>\<open>NULL\<close> it
  returns for a drawable that is not attached. The timer exists in unstable builds
  only (\<open>unstable\<close>).\<close>

definition gimp_image_map_init :: "bool \<Rightarrow> gegl_operation \<Rightarrow> gimp_image_map" where
  "gimp_image_map_init unstable op =
     \<lparr>undo_desc = [], undo_buffer = None, undo_offset_x = 0, undo_offset_y = 0,
      gegl = None, operation = op, processor = None, idle_id = 0,
      timer = unstable, pixel_count = 0, flush_signals = 0\<rparr>"

definition gimp_image_map_new :: "bool \<Rightarrow> string \<Rightarrow> gegl_operation \<Rightarrow> world \<Rightarrow> world option" where
  "gimp_image_map_new unstable desc op s =
     (if \<not> item_attached (drawable s) then None
      else Some (s\<lparr>image_map := (gimp_image_map_init unstable op)\<lparr>undo_desc := desc\<rparr>,
                   drawable := (drawable s)\<lparr>preview_freeze_count :=
                      Suc (preview_freeze_count (drawable s))\<rparr>\<rparr>))"

definition gimp_image_map_stop_idle :: "world \<Rightarrow> world" where
  "gimp_image_map_stop_idle s =
     (if idle_id (image_map s) \<noteq> 0
      then (let s1 = g_source_remove (idle_id (image_map s)) s
            in s1\<lparr>image_map := (image_map s1)\<lparr>idle_id := 0, processor := None\<rparr>\<rparr>)
      else s)"

definition gimp_image_map_update_undo_buffer :: "gegl_rectangle \<Rightarrow> world \<Rightarrow> world" where
  "gimp_image_map_update_undo_buffer rect s =
     (let im = image_map s;
          (uox, uoy, uw, uh) =
             (case undo_buffer im of
                Some ub \<Rightarrow> (undo_offset_x im, undo_offset_y im, buf_width ub, buf_height ub)
              | None \<Rightarrow> (0, 0, 0, 0))
      in if undo_buffer im = None \<or> uox \<noteq> rect_x rect \<or> uoy \<noteq> rect_y rect \<or>
            uw \<noteq> rect_width rect \<or> uh \<noteq> rect_height rect
         then (let ub0 =
                     (case undo_buffer im of
                        None \<Rightarrow>
                          gegl_buffer_new
                            (GEGL_RECTANGLE 0 0 (rect_width rect) (rect_height rect))
                            (gimp_drawable_get_format s)
                      | Some ub \<Rightarrow>
                          if uw \<noteq> rect_width rect \<or> uh \<noteq> rect_height rect
                          then gegl_buffer_new
                                 (GEGL_RECTANGLE 0 0 (rect_width rect) (rect_height rect))
                                 (gimp_drawable_get_format s)
                          else ub);
                   ub1 = gegl_buffer_copy (babl_fish s) (gimp_drawable_get_buffer s) rect ub0
                           (GEGL_RECTANGLE 0 0 0 0)
               in s\<lparr>image_map := im\<lparr>undo_buffer := Some ub1,
                                     undo_offset_x := rect_x rect,
                                     undo_offset_y := rect_y rect\<rparr>\<rparr>)
         else s)"

text \<open>\<^verbatim>\<open>gimp_image_map_data_written\<close>, the handler of the output node's \<^verbatim>\<open>computed\<close>
  signal. The code reads \<^verbatim>\<open>image_map->undo_buffer\<close> without a check; without a buffer
  GEGL's copy returns at once. The pixel count grows by \<^verbatim>\<open>extent->width * extent->height\<close>,
  a product of two \<^verbatim>\<open>gint\<close> taken in 32 bits and widened with its sign to \<^verbatim>\<open>guint64\<close>.\<close>

definition gimp_image_map_data_written :: "gegl_rectangle \<Rightarrow> world \<Rightarrow> world" where
  "gimp_image_map_data_written extent s =
     (let im = image_map s;
          s1 = (if \<not> mask_empty (gimage s)
                then (case undo_buffer im of
                        None \<Rightarrow> s
                      | Some ub \<Rightarrow>
                          s\<lparr>drawable := (drawable s)\<lparr>buffer :=
                               gegl_buffer_copy (babl_fish s) ub
                                 (GEGL_RECTANGLE (rect_x extent - undo_offset_x im)
                                                 (rect_y extent - undo_offset_y im)
                                                 (rect_width extent) (rect_height extent))
                                 (gimp_drawable_get_buffer s)
                                 (GEGL_RECTANGLE (rect_x extent) (rect_y extent) 0 0)\<rparr>\<rparr>)
                else s);
          (sb, s2) = gimp_drawable_get_shadow_buffer s1;
          s3 = gimp_drawable_apply_buffer sb
                 (GEGL_RECTANGLE (rect_x extent) (rect_y extent)
                                 (rect_width extent) (rect_height extent))
                 False None GIMP_OPACITY_OPAQUE GIMP_REPLACE_MODE None
                 (rect_x extent) (rect_y extent) s2;
          s4 = gimp_drawable_update (rect_x extent) (rect_y extent)
                 (rect_width extent) (rect_height extent) s3
      in if timer (image_map s4)
         then s4\<lparr>image_map := (image_map s4)\<lparr>pixel_count :=
                   pixel_count (image_map s4) +
                   word_of_int (sint (word_of_int (rect_width extent) *
                                      word_of_int (rect_height extent) :: 32 word))\<rparr>\<rparr>
         else s4)"

text \<open>GEGL: \<^verbatim>\<open>gegl_processor_work\<close> renders the next chunk into the output node's buffer,
  the drawable's shadow buffer, emits \<^verbatim>\<open>computed\<close> for its rectangle and tells whether
  work remains. Without a processor it returns \<^verbatim>\<open>FALSE\<close>.\<close>

definition gegl_processor_work :: "world \<Rightarrow> bool \<times> world" where
  "gegl_processor_work s =
     (case processor (image_map s) of
        None \<Rightarrow> (False, s)
      | Some [] \<Rightarrow> (False, s)
      | Some (c # cs) \<Rightarrow>
          (let d = drawable s;
               sh = (case shadow d of
                       None \<Rightarrow> None
                     | Some sb \<Rightarrow>
                         Some (sb\<lparr>buf_pixels := (\<lambda>p.
                           if in_rectangle (gegl_buffer_get_extent sb) p \<and>
                              in_rectangle (chunk_extent c) p
                           then chunk_pixels c p else buf_pixels sb p)\<rparr>));
               s1 = s\<lparr>drawable := d\<lparr>shadow := sh\<rparr>,
                      image_map := (image_map s)\<lparr>processor := Some cs\<rparr>\<rparr>
           in (cs \<noteq> [], gimp_image_map_data_written (chunk_extent c) s1)))"

definition emit_flush :: "world \<Rightarrow> world" where
  "emit_flush s = s\<lparr>image_map := (image_map s)\<lparr>flush_signals := Suc (flush_signals (image_map s))\<rparr>\<rparr>"

text \<open>\<^verbatim>\<open>gimp_image_map_do\<close>. The rate it prints when a timer exists is text on the error
  stream and is left out.\<close>

definition gimp_image_map_do :: "world \<Rightarrow> bool \<times> world" where
  "gimp_image_map_do s =
     (if \<not> item_attached (drawable s)
      then (False, s\<lparr>image_map := (image_map s)\<lparr>idle_id := 0, processor := None\<rparr>\<rparr>)
      else (let (pending, s1) = gegl_processor_work s
            in if \<not> pending
               then (False, emit_flush
                              (s1\<lparr>image_map := (image_map s1)\<lparr>processor := None, idle_id := 0\<rparr>\<rparr>))
               else (True, emit_flush s1)))"

text \<open>The loop \<^verbatim>\<open>while (gimp_image_map_do (image_map));\<close> of \<^verbatim>\<open>gimp_image_map_commit\<close>. It ends
  because every round that asks for another one has taken a chunk from the processor.\<close>

function gimp_image_map_do_loop :: "world \<Rightarrow> world" where
  "gimp_image_map_do_loop s =
     (case gimp_image_map_do s of
        (True, s') \<Rightarrow> gimp_image_map_do_loop s'
      | (False, s') \<Rightarrow> s')"
  by pat_completeness auto

lemma shadow_buffer_image_map:
  "image_map (snd (gimp_drawable_get_shadow_buffer s)) = image_map s"
  by (simp add: gimp_drawable_get_shadow_buffer_def Let_def split: option.splits)

lemma apply_buffer_image_map:
  "image_map (gimp_drawable_apply_buffer b r pu d opa m bb bx by s) = image_map s"
  by (simp add: gimp_drawable_apply_buffer_def gimp_drawable_real_apply_buffer_def Let_def
      g_return_if_fail_warning_def g_log_add_def)

lemma drawable_update_image_map:
  "image_map (gimp_drawable_update x y w h s) = image_map s"
  by (simp add: gimp_drawable_update_def)

lemma data_written_processor:
  "processor (image_map (gimp_image_map_data_written e s)) = processor (image_map s)"
  by (simp add: gimp_image_map_data_written_def Let_def case_prod_beta shadow_buffer_image_map
      apply_buffer_image_map drawable_update_image_map split: option.splits)

lemma processor_work_pending:
  assumes "gegl_processor_work s = (True, s1)"
  shows "\<exists>c cs. processor (image_map s) = Some (c # cs) \<and> processor (image_map s1) = Some cs"
proof (cases "processor (image_map s)")
  case None
  with assms show ?thesis by (simp add: gegl_processor_work_def)
next
  case (Some l)
  show ?thesis
  proof (cases l)
    case Nil
    with Some assms show ?thesis by (simp add: gegl_processor_work_def)
  next
    case (Cons c cs)
    with Some assms have "s1 = gimp_image_map_data_written (chunk_extent c)
        (s\<lparr>drawable := (drawable s)\<lparr>shadow :=
             (case shadow (drawable s) of
                None \<Rightarrow> None
              | Some sb \<Rightarrow>
                  Some (sb\<lparr>buf_pixels := (\<lambda>p.
                    if in_rectangle (gegl_buffer_get_extent sb) p \<and>
                       in_rectangle (chunk_extent c) p
                    then chunk_pixels c p else buf_pixels sb p)\<rparr>))\<rparr>,
           image_map := (image_map s)\<lparr>processor := Some cs\<rparr>\<rparr>)"
      by (simp add: gegl_processor_work_def Let_def)
    then have "processor (image_map s1) = Some cs"
      by (simp add: data_written_processor)
    with Some Cons show ?thesis by simp
  qed
qed

lemma image_map_do_pending:
  assumes "gimp_image_map_do s = (True, s')"
  shows "\<exists>c cs. processor (image_map s) = Some (c # cs) \<and> processor (image_map s') = Some cs"
proof -
  from assms have att: "item_attached (drawable s)"
    by (simp add: gimp_image_map_do_def split: if_splits)
  obtain pending s1 where w: "gegl_processor_work s = (pending, s1)"
    by (cases "gegl_processor_work s")
  with assms att have "pending" and s': "s' = emit_flush s1"
    by (auto simp: gimp_image_map_do_def split: if_splits)
  with w processor_work_pending [of s s1] show ?thesis
    by (auto simp: emit_flush_def)
qed

termination gimp_image_map_do_loop
  by (relation "measure (\<lambda>s. case processor (image_map s) of None \<Rightarrow> 0 | Some cs \<Rightarrow> length cs)")
    (auto dest!: image_map_do_pending [OF sym])

declare gimp_image_map_do_loop.simps [simp del]

definition gimp_image_map_apply :: "gegl_rectangle \<Rightarrow> world \<Rightarrow> world" where
  "gimp_image_map_apply visible s =
     (let s1 = gimp_image_map_stop_idle s
      in if \<not> item_attached (drawable s1) then s1
         else case gimp_item_mask_intersect s1 of
           None \<Rightarrow> s1
         | Some rect \<Rightarrow>
             (let s2 = gimp_image_map_update_undo_buffer rect s1;
                  input_buffer = undo_buffer (image_map s2);
                  (output_buffer, s3) = gimp_drawable_get_shadow_buffer s2;
                  op = operation (image_map s3);
                  links = (case gegl (image_map s3) of
                             Some l \<Rightarrow> l
                           | None \<Rightarrow>
                               if has_input_pad op \<and> has_output_pad op then FilterPipeline
                               else if has_output_pad op then SourcePipeline
                               else NopPipeline);
                  s4 = s3\<lparr>image_map := (image_map s3)\<lparr>gegl := Some links,
                          processor := Some (gegl_node_new_processor op links input_buffer
                                               (rect_x rect, rect_y rect) rect)\<rparr>\<rparr>;
                  s5 = (if timer (image_map s4)
                        then s4\<lparr>image_map := (image_map s4)\<lparr>pixel_count := 0\<rparr>\<rparr>
                        else s4);
                  (i, s6) = g_idle_add s5
              in s6\<lparr>image_map := (image_map s6)\<lparr>idle_id := i\<rparr>\<rparr>))"

definition gimp_image_map_commit :: "world \<Rightarrow> world" where
  "gimp_image_map_commit s =
     (let s1 = (if idle_id (image_map s) \<noteq> 0
                then (let s0 = g_source_remove (idle_id (image_map s)) s
                      in gimp_image_map_do_loop (s0\<lparr>image_map := (image_map s0)\<lparr>idle_id := 0\<rparr>\<rparr>))
                else s)
      in if \<not> item_attached (drawable s1) then s1
         else case undo_buffer (image_map s1) of
           None \<Rightarrow> s1
         | Some ub \<Rightarrow>
             (let s2 = gimp_drawable_push_undo (undo_desc (image_map s1)) (Some ub)
                         (undo_offset_x (image_map s1)) (undo_offset_y (image_map s1))
                         (buf_width ub) (buf_height ub) s1
              in s2\<lparr>image_map := (image_map s2)\<lparr>undo_buffer := None\<rparr>\<rparr>))"

definition gimp_image_map_clear :: "world \<Rightarrow> world" where
  "gimp_image_map_clear s =
     (let s1 = gimp_image_map_stop_idle s
      in if \<not> item_attached (drawable s1) then s1
         else case undo_buffer (image_map s1) of
           None \<Rightarrow> s1
         | Some ub \<Rightarrow>
             (let x = undo_offset_x (image_map s1);
                  y = undo_offset_y (image_map s1);
                  w = buf_width ub;
                  h = buf_height ub;
                  s2 = (if buf_format ub \<noteq> gimp_drawable_get_format s1
                        then g_log_add G_LOG_LEVEL_MESSAGE
                               ''image depth change, unable to restore original image'' s1
                        else gimp_drawable_update x y w h
                               (s1\<lparr>drawable := (drawable s1)\<lparr>buffer :=
                                     gegl_buffer_copy (babl_fish s1) ub (GEGL_RECTANGLE 0 0 w h)
                                       (gimp_drawable_get_buffer s1)
                                       (GEGL_RECTANGLE x y w h)\<rparr>\<rparr>))
              in s2\<lparr>image_map := (image_map s2)\<lparr>undo_buffer := None\<rparr>\<rparr>))"

definition gimp_image_map_abort :: "world \<Rightarrow> world" where
  "gimp_image_map_abort s =
     (let s1 = gimp_image_map_stop_idle s
      in if \<not> item_attached (drawable s1) then s1 else gimp_image_map_clear s1)"

text \<open>\<^verbatim>\<open>gimp_image_map_get_pixel_at\<close>: \<open>None\<close> is \<^verbatim>\<open>FALSE\<close>, \<open>Some\<close> the pixel written with
  \<^verbatim>\<open>TRUE\<close>. \<^verbatim>\<open>gimp_pickable_get_pixel_at\<close> on the drawable reaches
  \<^verbatim>\<open>gimp_drawable_get_pixel_at\<close> through the interface.\<close>

definition gimp_image_map_get_pixel_at :: "int \<Rightarrow> int \<Rightarrow> babl \<Rightarrow> world \<Rightarrow> pixel option" where
  "gimp_image_map_get_pixel_at x y format s =
     (if x \<ge> 0 \<and> x < item_width (drawable s) \<and> y \<ge> 0 \<and> y < item_height (drawable s)
      then (case undo_buffer (image_map s) of
              Some ub \<Rightarrow>
                (let offset_x = undo_offset_x (image_map s);
                     offset_y = undo_offset_y (image_map s);
                     width = buf_width ub;
                     height = buf_height ub
                 in if x \<ge> offset_x \<and> x < offset_x + width \<and> y \<ge> offset_y \<and> y < offset_y + height
                    then Some (babl_process (babl_fish s) (buf_format ub) format
                                 (gegl_buffer_sample ub (x - offset_x, y - offset_y)))
                    else gimp_drawable_get_pixel_at x y format s)
            | None \<Rightarrow> gimp_drawable_get_pixel_at x y format s)
      else None)"

text \<open>GLib: one turn of the main loop runs the idle source \<^verbatim>\<open>gimp_image_map_apply\<close> added,
  and removes it when the function returns \<^verbatim>\<open>FALSE\<close>.\<close>

definition g_main_context_iteration :: "world \<Rightarrow> world" where
  "g_main_context_iteration s =
     (let i = idle_id (image_map s)
      in if i \<noteq> 0 \<and> i \<in> set (idle_sources s)
         then (case gimp_image_map_do s of
                 (True, s') \<Rightarrow> s'
               | (False, s') \<Rightarrow> g_source_remove i s')
         else s)"

section \<open>The node graphs: \<^verbatim>\<open>gimpdrawable.c\<close>\<close>

text \<open>GEGL: an input pad has one source, so connecting a pad replaces what was
  connected to it; a node is the child of at most one graph.\<close>

definition gegl_node_connect_to :: "gegl_node \<Rightarrow> string \<Rightarrow> gegl_node \<Rightarrow> string \<Rightarrow> world \<Rightarrow> world" where
  "gegl_node_connect_to source output_pad sink input_pad s =
     s\<lparr>connections := (connections s)((sink, input_pad) := Some (source, output_pad))\<rparr>"

definition gegl_node_disconnect :: "gegl_node \<Rightarrow> string \<Rightarrow> world \<Rightarrow> world" where
  "gegl_node_disconnect node input_pad s =
     s\<lparr>connections := (connections s)((node, input_pad) := None)\<rparr>"

definition gegl_node_add_child :: "gegl_graph \<Rightarrow> gegl_node \<Rightarrow> world \<Rightarrow> world" where
  "gegl_node_add_child graph child s =
     s\<lparr>node_parent := (node_parent s)(child := Some graph)\<rparr>"

definition gegl_node_remove_child :: "gegl_graph \<Rightarrow> gegl_node \<Rightarrow> world \<Rightarrow> world" where
  "gegl_node_remove_child graph child s =
     (if node_parent s child = Some graph
      then s\<lparr>node_parent := (node_parent s)(child := None)\<rparr>
      else s)"

text \<open>\<^verbatim>\<open>gimp_drawable_get_node\<close>, the \<^verbatim>\<open>get_node\<close> method: the parent class creates the
  item's node with its two proxies; \<^verbatim>\<open>g_warn_if_fail\<close> logs a warning and goes on.\<close>

definition gimp_drawable_get_node :: "world \<Rightarrow> world" where
  "gimp_drawable_get_node s =
     (let s1 = s\<lparr>drawable := (drawable s)\<lparr>item_node := True\<rparr>\<rparr>;
          s2 = (if mode_node (drawable s1)
                then g_log_add G_LOG_LEVEL_WARNING
                       ''gimp_drawable_get_node: drawable->private->mode_node == NULL'' s1
                else s1);
          s3 = gegl_node_add_child ItemGraph ModeNode
                 (s2\<lparr>drawable := (drawable s2)\<lparr>mode_node := True\<rparr>\<rparr>)
      in if item_visible (drawable s3)
         then gegl_node_connect_to ModeNode ''output'' ItemOutputProxy ''input''
                (gegl_node_connect_to ItemInputProxy ''output'' ModeNode ''input'' s3)
         else gegl_node_connect_to ItemInputProxy ''output'' ItemOutputProxy ''input'' s3)"

text \<open>\<^verbatim>\<open>gimp_drawable_visibility_changed\<close>. Without a node it chains up to the handler of
  the parent class, which is not among the sources and has no graph to rewire.\<close>

definition gimp_drawable_visibility_changed :: "world \<Rightarrow> world" where
  "gimp_drawable_visibility_changed s =
     (if item_node (drawable s)
      then (if item_visible (drawable s)
            then gegl_node_connect_to ModeNode ''output'' ItemOutputProxy ''input''
                   (gegl_node_connect_to ItemInputProxy ''output'' ModeNode ''input'' s)
            else gegl_node_connect_to ItemInputProxy ''output'' ItemOutputProxy ''input''
                   (gegl_node_disconnect ModeNode ''input'' s))
      else s)"

text \<open>Modelled from the spec: \<^verbatim>\<open>gimp_item_set_visible\<close> is not among the sources. Toggling
  the visibility (spec 8.5) stores the flag and runs the item's \<^verbatim>\<open>visibility_changed\<close>
  handler.\<close>

definition gimp_item_set_visible :: "bool \<Rightarrow> world \<Rightarrow> world" where
  "gimp_item_set_visible visible s =
     gimp_drawable_visibility_changed (s\<lparr>drawable := (drawable s)\<lparr>item_visible := visible\<rparr>\<rparr>)"

text \<open>\<^verbatim>\<open>gimp_drawable_get_source_node\<close> on the floating selection, a layer that has no
  floating selection and no crop node of its own: the call of
  \<^verbatim>\<open>gimp_drawable_sync_source_node\<close> in it connects the buffer source to the output.\<close>

definition gimp_layer_get_source_node :: "nat \<Rightarrow> world \<Rightarrow> world" where
  "gimp_layer_get_source_node f s =
     (if layer_source_node (layers s f) then s
      else gegl_node_connect_to (LayerBufferSourceNode f) ''output''
             (LayerSourceOutputProxy f) ''input''
             (gegl_node_add_child (LayerSourceGraph f) (LayerBufferSourceNode f)
                (s\<lparr>layers := (layers s)(f := (layers s f)\<lparr>layer_source_node := True\<rparr>)\<rparr>)))"

text \<open>Modelled from the spec: \<^verbatim>\<open>gimp_gegl_mode_node_set\<close> is not among the sources. The
  parameters of the mode node ``mirror the overlay's current mode/opacity'' (4.2).\<close>

definition gimp_gegl_mode_node_set :: "gimp_layer_mode_effects \<Rightarrow> real \<Rightarrow> bool \<Rightarrow> mode_node_props" where
  "gimp_gegl_mode_node_set mode opacity lin = \<lparr>node_mode = mode, node_opacity = opacity\<rparr>"

text \<open>\<^verbatim>\<open>gimp_drawable_sync_source_node\<close>. The three nodes of the floating selection are
  created and given their properties in one branch; the fields hold the properties
  the branch leaves them with.\<close>

definition gimp_drawable_sync_source_node :: "bool \<Rightarrow> world \<Rightarrow> world" where
  "gimp_drawable_sync_source_node detach_fs s =
     (if \<not> source_node (drawable s) then s
      else case (if detach_fs then None else floating_selection (drawable s)) of
        Some f \<Rightarrow>
          (let s1 =
                 (if fs_crop_node (drawable s) = None
                  then (let t1 = gimp_layer_get_source_node f s;
                            t2 = (if layer_offset_node (layers t1 f)
                                  then gegl_node_remove_child (LayerItemGraph f) (LayerSourceNode f)
                                         (gegl_node_disconnect (LayerOffsetNode f) ''input'' t1)
                                  else t1);
                            t3 = gegl_node_add_child SourceGraph (LayerSourceNode f) t2;
                            t4 = gegl_node_connect_to (LayerSourceNode f) ''output'' FsCropNode ''input''
                                   (gegl_node_add_child SourceGraph FsCropNode t3);
                            t5 = gegl_node_connect_to FsCropNode ''output'' FsOffsetNode ''input''
                                   (gegl_node_add_child SourceGraph FsOffsetNode t4);
                            t6 = gegl_node_connect_to FsOffsetNode ''output'' FsModeNode ''aux''
                                   (gegl_node_connect_to BufferSourceNode ''output'' FsModeNode ''input''
                                      (gegl_node_add_child SourceGraph FsModeNode t5));
                            t7 = gegl_node_connect_to FsModeNode ''output'' SourceOutputProxy ''input'' t6
                        in t7\<lparr>layers := (layers t7)(f := (layers t7 f)\<lparr>layer_notify_handler := True\<rparr>)\<rparr>)
                  else s);
               off_x = item_offset_x (drawable s1);
               off_y = item_offset_y (drawable s1);
               fs_off_x = layer_offset_x (layers s1 f);
               fs_off_y = layer_offset_y (layers s1 f)
           in s1\<lparr>drawable := (drawable s1)
                \<lparr>fs_crop_node := Some \<lparr>crop_x = off_x - fs_off_x, crop_y = off_y - fs_off_y,
                                        crop_width = item_width (drawable s1),
                                        crop_height = item_height (drawable s1)\<rparr>,
                 fs_offset_node := Some \<lparr>translate_x = fs_off_x - off_x,
                                          translate_y = fs_off_y - off_y\<rparr>,
                 fs_mode_node := Some (gimp_gegl_mode_node_set (layer_mode (layers s1 f))
                                         (layer_opacity (layers s1 f)) False)\<rparr>\<rparr>)
      | None \<Rightarrow>
          (let s1 =
                 (if fs_crop_node (drawable s) \<noteq> None
                  then (let t1 = gegl_node_disconnect FsModeNode ''aux''
                                   (gegl_node_disconnect FsModeNode ''input''
                                      (gegl_node_disconnect FsOffsetNode ''input''
                                         (gegl_node_disconnect FsCropNode ''input'' s)));
                            t2 = (case floating_selection (drawable t1) of
                                    None \<Rightarrow> t1
                                  | Some f \<Rightarrow>
                                      (let u1 = gegl_node_remove_child SourceGraph (LayerSourceNode f)
                                                  (gimp_layer_get_source_node f t1);
                                           u2 = (if layer_offset_node (layers u1 f)
                                                 then gegl_node_connect_to (LayerSourceNode f) ''output''
                                                        (LayerOffsetNode f) ''input''
                                                        (gegl_node_add_child (LayerItemGraph f)
                                                           (LayerSourceNode f) u1)
                                                 else u1)
                                       in u2\<lparr>layers := (layers u2)
                                            (f := (layers u2 f)\<lparr>layer_notify_handler := False\<rparr>)\<rparr>));
                            t3 = gegl_node_remove_child SourceGraph FsModeNode
                                   (gegl_node_remove_child SourceGraph FsOffsetNode
                                      (gegl_node_remove_child SourceGraph FsCropNode t2))
                        in t3\<lparr>drawable := (drawable t3)\<lparr>fs_crop_node := None,
                                 fs_offset_node := None, fs_mode_node := None\<rparr>\<rparr>)
                  else s)
           in gegl_node_connect_to BufferSourceNode ''output'' SourceOutputProxy ''input'' s1))"

definition gimp_drawable_fs_notify :: "string \<Rightarrow> world \<Rightarrow> world" where
  "gimp_drawable_fs_notify pspec_name s =
     (if pspec_name = ''offset-x'' \<or> pspec_name = ''offset-y'' \<or> pspec_name = ''visible'' \<or>
         pspec_name = ''mode'' \<or> pspec_name = ''opacity''
      then gimp_drawable_sync_source_node False s
      else s)"

definition gimp_drawable_fs_update :: "nat \<Rightarrow> int \<Rightarrow> int \<Rightarrow> int \<Rightarrow> int \<Rightarrow> world \<Rightarrow> world" where
  "gimp_drawable_fs_update f x y w h s =
     (let fs_off_x = layer_offset_x (layers s f);
          fs_off_y = layer_offset_y (layers s f);
          off_x = item_offset_x (drawable s);
          off_y = item_offset_y (drawable s)
      in case gimp_rectangle_intersect (x + fs_off_x) (y + fs_off_y) w h off_x off_y
                (item_width (drawable s)) (item_height (drawable s)) of
           Some dr \<Rightarrow>
             gimp_drawable_update (rect_x dr - off_x) (rect_y dr - off_y)
               (rect_width dr) (rect_height dr) s
         | None \<Rightarrow> s)"

definition gimp_drawable_get_source_node :: "world \<Rightarrow> world" where
  "gimp_drawable_get_source_node s =
     (if source_node (drawable s) then s
      else gimp_drawable_sync_source_node False
             (gegl_node_add_child SourceGraph BufferSourceNode
                (s\<lparr>drawable := (drawable s)\<lparr>source_node := True, buffer_source_node := True\<rparr>\<rparr>)))"

definition gimp_drawable_get_floating_sel :: "world \<Rightarrow> nat option" where
  "gimp_drawable_get_floating_sel s = floating_selection (drawable s)"

text \<open>Modelled from the spec: \<^verbatim>\<open>gimp_image_set_floating_selection\<close> is not among the
  sources; it stores the image's floating-selection reference. The
  \<^verbatim>\<open>invalidate_boundary\<close> method of the layer is not among the sources either; its calls
  are counted.\<close>

definition gimp_image_set_floating_selection :: "nat option \<Rightarrow> world \<Rightarrow> world" where
  "gimp_image_set_floating_selection f s = s\<lparr>gimage := (gimage s)\<lparr>image_floating_sel := f\<rparr>\<rparr>"

definition gimp_drawable_invalidate_boundary :: "nat \<Rightarrow> world \<Rightarrow> world" where
  "gimp_drawable_invalidate_boundary f s =
     s\<lparr>layers := (layers s)(f := (layers s f)\<lparr>layer_boundary_invalidations :=
          Suc (layer_boundary_invalidations (layers s f))\<rparr>)\<rparr>"

definition gimp_drawable_attach_floating_sel :: "nat \<Rightarrow> world \<Rightarrow> world" where
  "gimp_drawable_attach_floating_sel floating_sel s =
     (if \<not> item_attached (drawable s)
      then g_return_if_fail_warning ''gimp_drawable_attach_floating_sel''
             ''gimp_item_is_attached (GIMP_ITEM (drawable))'' s
      else if gimp_drawable_get_floating_sel s \<noteq> None
      then g_return_if_fail_warning ''gimp_drawable_attach_floating_sel''
             ''gimp_drawable_get_floating_sel (drawable) == NULL'' s
      else (let s1 = s\<lparr>drawable := (drawable s)\<lparr>floating_selection := Some floating_sel\<rparr>\<rparr>;
                s2 = gimp_image_set_floating_selection (Some floating_sel) s1;
                s3 = gimp_drawable_invalidate_boundary floating_sel s2;
                s4 = gimp_drawable_sync_source_node False s3;
                s5 = s4\<lparr>layers := (layers s4)
                       (floating_sel := (layers s4 floating_sel)\<lparr>layer_update_handler := True\<rparr>)\<rparr>
            in gimp_drawable_fs_update floating_sel 0 0
                 (layer_width (layers s5 floating_sel)) (layer_height (layers s5 floating_sel)) s5))"

definition gimp_drawable_detach_floating_sel :: "world \<Rightarrow> world" where
  "gimp_drawable_detach_floating_sel s =
     (case gimp_drawable_get_floating_sel s of
        None \<Rightarrow>
          g_return_if_fail_warning ''gimp_drawable_detach_floating_sel''
            ''gimp_drawable_get_floating_sel (drawable) != NULL'' s
      | Some floating_sel \<Rightarrow>
          (let s1 = gimp_drawable_sync_source_node True s;
               s2 = s1\<lparr>layers := (layers s1)
                      (floating_sel := (layers s1 floating_sel)\<lparr>layer_update_handler := False\<rparr>)\<rparr>;
               s3 = gimp_drawable_fs_update floating_sel 0 0
                      (layer_width (layers s2 floating_sel)) (layer_height (layers s2 floating_sel)) s2;
               s4 = gimp_drawable_invalidate_boundary floating_sel s3;
               s5 = gimp_image_set_floating_selection None s4
           in s5\<lparr>drawable := (drawable s5)\<lparr>floating_selection := None\<rparr>\<rparr>))"

section \<open>A preview and a floating selection to run\<close>

text \<open>A red drawable of 100 by 100 pixels at the image's origin; a selection with the
  bounding box (10, 10, 20, 20) that leaves out the pixel (15, 15); a filter that
  inverts the colours and delivers each rectangle as its first row and the rest; a
  layer 7 of 20 by 20 pixels at (10, 10), half opaque, and a second layer 8.\<close>

definition red :: pixel where
  "red = [255, 0, 0, 255]"

definition cyan :: pixel where
  "cyan = [0, 255, 255, 255]"

definition invert_pixel :: "pixel \<Rightarrow> pixel" where
  "invert_pixel px = (case px of [r, g, b, a] \<Rightarrow> [255 - r, 255 - g, 255 - b, a] | _ \<Rightarrow> px)"

definition invert_operation :: gegl_operation where
  "invert_operation =
     \<lparr>has_input_pad = True, has_output_pad = True,
      render = (\<lambda>links b tr r.
        [\<lparr>chunk_extent = GEGL_RECTANGLE (rect_x r) (rect_y r) (rect_width r) 1,
          chunk_pixels = (\<lambda>p. invert_pixel (gegl_buffer_sample b (fst p - fst tr, snd p - snd tr)))\<rparr>,
         \<lparr>chunk_extent = GEGL_RECTANGLE (rect_x r) (rect_y r + 1) (rect_width r) (rect_height r - 1),
          chunk_pixels = (\<lambda>p. invert_pixel (gegl_buffer_sample b (fst p - fst tr, snd p - snd tr)))\<rparr>])\<rparr>"

definition example_drawable :: gimp_drawable where
  "example_drawable =
     \<lparr>item_attached = True, item_visible = True, item_width = 100, item_height = 100,
      item_offset_x = 0, item_offset_y = 0, item_node = False, preview_freeze_count = 0,
      buffer = \<lparr>buf_width = 100, buf_height = 100, buf_format = ''RGBA u8'',
                buf_pixels = (\<lambda>p. red)\<rparr>,
      shadow = None, source_node = False, buffer_source_node = False,
      fs_crop_node = None, fs_offset_node = None, fs_mode_node = None, mode_node = False,
      floating_selection = None, update_signals = []\<rparr>"

definition example_layer :: gimp_layer where
  "example_layer =
     \<lparr>layer_offset_x = 10, layer_offset_y = 10, layer_width = 20, layer_height = 20,
      layer_mode = GIMP_NORMAL_MODE, layer_opacity = 1 / 2,
      layer_source_node = False, layer_offset_node = False,
      layer_boundary_invalidations = 0, layer_notify_handler = False,
      layer_update_handler = False\<rparr>"

definition example_image :: gimp_image where
  "example_image =
     \<lparr>mask_empty = False, mask_bounds = GEGL_RECTANGLE 10 10 20 20,
      mask_coverage = (\<lambda>p. in_rectangle (GEGL_RECTANGLE 10 10 20 20) p \<and> p \<noteq> (15, 15)),
      image_floating_sel = None, undo_stack = []\<rparr>"

definition example_world :: world where
  "example_world =
     \<lparr>drawable = example_drawable, layers = (\<lambda>f. example_layer), gimage = example_image,
      image_map = gimp_image_map_init False invert_operation,
      connections = (\<lambda>pad. None), node_parent = (\<lambda>n. None),
      idle_sources = [], next_source_id = 0, g_log = [],
      babl_fish = (\<lambda>src dst px. px)\<rparr>"

text \<open>The preview session on the example: the image map as \<^verbatim>\<open>gimp_image_map_new\<close> makes
  it for the drawable and the filter.\<close>

definition example_session :: world where
  "example_session =
     example_world\<lparr>image_map := (gimp_image_map_init False invert_operation)\<lparr>undo_desc := ''Invert''\<rparr>,
                   drawable := example_drawable\<lparr>preview_freeze_count := 1\<rparr>\<rparr>"

text \<open>A session whose snapshot, 2 by 2 pixels at (3, 4), is in another format than the
  drawable: the image's mode changed while the preview was pending.\<close>

definition gray_snapshot :: gegl_buffer where
  "gray_snapshot = \<lparr>buf_width = 2, buf_height = 2, buf_format = ''Y u8'', buf_pixels = (\<lambda>p. [7])\<rparr>"

definition example_converted :: world where
  "example_converted =
     example_session\<lparr>image_map := (image_map example_session)
       \<lparr>undo_buffer := Some gray_snapshot, undo_offset_x := 3, undo_offset_y := 4\<rparr>\<rparr>"

text \<open>The session after a run in which the selection covered its whole bounding box,
  with the selection then changed to leave out (15, 15): the snapshot holds the red
  pixels of the region, the region of the drawable is cyan, and the shadow buffer
  holds the filter's output.\<close>

definition red_snapshot :: gegl_buffer where
  "red_snapshot = \<lparr>buf_width = 20, buf_height = 20, buf_format = ''RGBA u8'', buf_pixels = (\<lambda>p. red)\<rparr>"

definition cyan_buffer :: gegl_buffer where
  "cyan_buffer = \<lparr>buf_width = 100, buf_height = 100, buf_format = ''RGBA u8'', buf_pixels = (\<lambda>p. cyan)\<rparr>"

definition filtered_buffer :: gegl_buffer where
  "filtered_buffer =
     \<lparr>buf_width = 100, buf_height = 100, buf_format = ''RGBA u8'',
      buf_pixels = (\<lambda>p. if in_rectangle (GEGL_RECTANGLE 10 10 20 20) p then cyan else red)\<rparr>"

definition example_running :: world where
  "example_running =
     example_session\<lparr>image_map := (image_map example_session)
       \<lparr>undo_buffer := Some red_snapshot, undo_offset_x := 10, undo_offset_y := 10\<rparr>,
       drawable := (drawable example_session)\<lparr>buffer := filtered_buffer, shadow := Some cyan_buffer\<rparr>\<rparr>"

text \<open>The session after apply and one turn of the main loop: the snapshot is taken and
  the first row of the region is filtered.\<close>

definition example_ticked :: world where
  "example_ticked =
     g_main_context_iteration (gimp_image_map_apply (GEGL_RECTANGLE 0 0 50 50) example_session)"

text \<open>The session with the snapshot in another format, its drawable removed from the
  image.\<close>

definition example_detached :: world where
  "example_detached = example_converted\<lparr>drawable := (drawable example_converted)\<lparr>item_attached := False\<rparr>\<rparr>"

text \<open>The drawable with its source node built and layer 7 attached as floating
  selection.\<close>

definition example_bound :: world where
  "example_bound = gimp_drawable_attach_floating_sel 7 (gimp_drawable_get_source_node example_world)"

section \<open>Invariants of a pending preview\<close>

text \<open>What no turn of the filter touches: the snapshot with its anchor, the attachment,
  the size and format of the drawable's buffer, the image with its selection, and
  babl's conversions.\<close>

definition session_kept :: "world \<Rightarrow> world \<Rightarrow> bool" where
  "session_kept s t \<longleftrightarrow>
     undo_buffer (image_map t) = undo_buffer (image_map s) \<and>
     undo_offset_x (image_map t) = undo_offset_x (image_map s) \<and>
     undo_offset_y (image_map t) = undo_offset_y (image_map s) \<and>
     item_attached (drawable t) = item_attached (drawable s) \<and>
     item_width (drawable t) = item_width (drawable s) \<and>
     item_height (drawable t) = item_height (drawable s) \<and>
     buf_width (buffer (drawable t)) = buf_width (buffer (drawable s)) \<and>
     buf_height (buffer (drawable t)) = buf_height (buffer (drawable s)) \<and>
     buf_format (buffer (drawable t)) = buf_format (buffer (drawable s)) \<and>
     gimage t = gimage s \<and> babl_fish t = babl_fish s"



section \<open>Rectangles, buffers and what a step leaves alone\<close>

lemma rectangle_intersect_Some:
  assumes "gimp_rectangle_intersect x1 y1 w1 h1 x2 y2 w2 h2 = Some r"
  shows "r = GEGL_RECTANGLE (max x1 x2) (max y1 y2)
               (min (x1 + w1) (x2 + w2) - max x1 x2) (min (y1 + h1) (y2 + h2) - max y1 y2)"
  using assms unfolding gimp_rectangle_intersect_def Let_def
  by (simp split: if_splits)

lemma rectangle_intersect_iff:
  assumes "gimp_rectangle_intersect x1 y1 w1 h1 x2 y2 w2 h2 = Some r"
  shows "in_rectangle r p \<longleftrightarrow>
         in_rectangle (GEGL_RECTANGLE x1 y1 w1 h1) p \<and> in_rectangle (GEGL_RECTANGLE x2 y2 w2 h2) p"
  unfolding rectangle_intersect_Some [OF assms] in_rectangle_def GEGL_RECTANGLE_def
  by (simp add: conj_ac)

lemma rectangle_intersect_None:
  assumes "gimp_rectangle_intersect x1 y1 w1 h1 x2 y2 w2 h2 = None"
  shows "\<not> (in_rectangle (GEGL_RECTANGLE x1 y1 w1 h1) p \<and> in_rectangle (GEGL_RECTANGLE x2 y2 w2 h2) p)"
proof
  assume both: "in_rectangle (GEGL_RECTANGLE x1 y1 w1 h1) p \<and> in_rectangle (GEGL_RECTANGLE x2 y2 w2 h2) p"
  then have "max x1 x2 \<le> fst p" and "fst p < min (x1 + w1) (x2 + w2)"
    and "max y1 y2 \<le> snd p" and "snd p < min (y1 + h1) (y2 + h2)"
    by (simp_all add: in_rectangle_def GEGL_RECTANGLE_def)
  then have "min (x1 + w1) (x2 + w2) - max x1 x2 > 0" and "min (y1 + h1) (y2 + h2) - max y1 y2 > 0"
    by linarith+
  with assms show False
    unfolding gimp_rectangle_intersect_def Let_def by simp
qed

lemma in_GEGL_RECTANGLE [simp]:
  "in_rectangle (GEGL_RECTANGLE x y w h) p \<longleftrightarrow> x \<le> fst p \<and> fst p < x + w \<and> y \<le> snd p \<and> snd p < y + h"
  by (simp add: in_rectangle_def GEGL_RECTANGLE_def)

lemma GEGL_RECTANGLE_sel [simp]:
  "rect_x (GEGL_RECTANGLE x y w h) = x"
  "rect_y (GEGL_RECTANGLE x y w h) = y"
  "rect_width (GEGL_RECTANGLE x y w h) = w"
  "rect_height (GEGL_RECTANGLE x y w h) = h"
  by (simp_all add: GEGL_RECTANGLE_def)

lemma GEGL_RECTANGLE_eta [simp]:
  "GEGL_RECTANGLE (rect_x r) (rect_y r) (rect_width r) (rect_height r) = r"
  by (simp add: GEGL_RECTANGLE_def)

lemma buffer_copy_frame [simp]:
  "buf_width (gegl_buffer_copy fish src sr dst dr) = buf_width dst"
  "buf_height (gegl_buffer_copy fish src sr dst dr) = buf_height dst"
  "buf_format (gegl_buffer_copy fish src sr dst dr) = buf_format dst"
  "gegl_buffer_get_extent (gegl_buffer_copy fish src sr dst dr) = gegl_buffer_get_extent dst"
  by (simp_all add: gegl_buffer_copy_def gegl_buffer_get_extent_def)

lemma buffer_copy_pixels:
  "buf_pixels (gegl_buffer_copy fish src sr dst dr) p =
     (if in_rectangle (gegl_buffer_get_extent dst) p \<and>
         in_rectangle (GEGL_RECTANGLE (rect_x dr) (rect_y dr) (rect_width sr) (rect_height sr)) p
      then babl_process fish (buf_format src) (buf_format dst)
             (gegl_buffer_sample src (fst p - rect_x dr + rect_x sr, snd p - rect_y dr + rect_y sr))
      else buf_pixels dst p)"
  by (simp add: gegl_buffer_copy_def)

lemma babl_process_same [simp]: "babl_process fish f f px = px"
  by (simp add: babl_process_def)

lemma stop_idle_frame [simp]:
  "drawable (gimp_image_map_stop_idle s) = drawable s"
  "gimage (gimp_image_map_stop_idle s) = gimage s"
  "babl_fish (gimp_image_map_stop_idle s) = babl_fish s"
  "g_log (gimp_image_map_stop_idle s) = g_log s"
  "layers (gimp_image_map_stop_idle s) = layers s"
  "undo_buffer (image_map (gimp_image_map_stop_idle s)) = undo_buffer (image_map s)"
  "undo_offset_x (image_map (gimp_image_map_stop_idle s)) = undo_offset_x (image_map s)"
  "undo_offset_y (image_map (gimp_image_map_stop_idle s)) = undo_offset_y (image_map s)"
  "idle_id (image_map (gimp_image_map_stop_idle s)) = 0"
  by (simp_all add: gimp_image_map_stop_idle_def g_source_remove_def Let_def)

lemma stop_idle_sources:
  "set (idle_sources (gimp_image_map_stop_idle s)) \<subseteq> set (idle_sources s)"
  by (auto simp add: gimp_image_map_stop_idle_def g_source_remove_def Let_def)

lemma mask_intersect_stop_idle [simp]:
  "gimp_item_mask_intersect (gimp_image_map_stop_idle s) = gimp_item_mask_intersect s"
  by (simp add: gimp_item_mask_intersect_def)

lemma session_kept_refl: "session_kept s s"
  by (simp add: session_kept_def)

lemma session_kept_trans: "session_kept s t \<Longrightarrow> session_kept t u \<Longrightarrow> session_kept s u"
  by (simp add: session_kept_def)

lemma session_kept_data_written: "session_kept s (gimp_image_map_data_written e s)"
  by (simp add: session_kept_def gimp_image_map_data_written_def Let_def case_prod_beta
      gimp_drawable_get_shadow_buffer_def gimp_drawable_apply_buffer_def
      gimp_drawable_real_apply_buffer_def gimp_drawable_update_def gimp_drawable_get_buffer_def
      g_return_if_fail_warning_def g_log_add_def split: option.splits)

lemma session_kept_work: "session_kept s (snd (gegl_processor_work s))"
proof (cases "processor (image_map s)")
  case None
  then show ?thesis by (simp add: gegl_processor_work_def session_kept_refl)
next
  case (Some l)
  show ?thesis
  proof (cases l)
    case Nil
    with Some show ?thesis by (simp add: gegl_processor_work_def session_kept_refl)
  next
    case (Cons c cs)
    let ?s1 = "s\<lparr>drawable := (drawable s)\<lparr>shadow :=
             (case shadow (drawable s) of
                None \<Rightarrow> None
              | Some sb \<Rightarrow>
                  Some (sb\<lparr>buf_pixels := (\<lambda>p.
                    if in_rectangle (gegl_buffer_get_extent sb) p \<and>
                       in_rectangle (chunk_extent c) p
                    then chunk_pixels c p else buf_pixels sb p)\<rparr>))\<rparr>,
           image_map := (image_map s)\<lparr>processor := Some cs\<rparr>\<rparr>"
    have "session_kept s ?s1" by (simp add: session_kept_def)
    moreover have "session_kept ?s1 (gimp_image_map_data_written (chunk_extent c) ?s1)"
      by (rule session_kept_data_written)
    moreover have "snd (gegl_processor_work s) = gimp_image_map_data_written (chunk_extent c) ?s1"
      using Some Cons by (simp add: gegl_processor_work_def Let_def)
    ultimately show ?thesis by (simp add: session_kept_trans)
  qed
qed

lemma session_kept_do: "session_kept s (snd (gimp_image_map_do s))"
proof -
  have "session_kept (snd (gegl_processor_work s)) (snd (gimp_image_map_do s)) \<or>
        snd (gimp_image_map_do s) = s\<lparr>image_map := (image_map s)\<lparr>idle_id := 0, processor := None\<rparr>\<rparr>"
    by (simp add: gimp_image_map_do_def case_prod_beta emit_flush_def session_kept_def)
  then show ?thesis
  proof
    assume "session_kept (snd (gegl_processor_work s)) (snd (gimp_image_map_do s))"
    with session_kept_work [of s] show ?thesis by (rule session_kept_trans)
  next
    assume "snd (gimp_image_map_do s) = s\<lparr>image_map := (image_map s)\<lparr>idle_id := 0, processor := None\<rparr>\<rparr>"
    then show ?thesis by (simp add: session_kept_def)
  qed
qed

lemma session_kept_iteration: "session_kept s (g_main_context_iteration s)"
proof -
  have "g_main_context_iteration s = s \<or>
        session_kept (snd (gimp_image_map_do s)) (g_main_context_iteration s)"
    by (simp add: g_main_context_iteration_def Let_def g_source_remove_def session_kept_def
        split: prod.splits bool.splits)
  then show ?thesis
    using session_kept_do [of s] session_kept_refl session_kept_trans by metis
qed

lemma session_kept_iterations: "session_kept s ((g_main_context_iteration ^^ n) s)"
proof (induction n)
  case 0
  show ?case by (simp add: session_kept_refl)
next
  case (Suc n)
  have "session_kept ((g_main_context_iteration ^^ n) s)
          (g_main_context_iteration ((g_main_context_iteration ^^ n) s))"
    by (rule session_kept_iteration)
  with Suc show ?case by (simp add: session_kept_trans)
qed

lemma session_kept_do_loop: "session_kept s (gimp_image_map_do_loop s)"
proof (induction s rule: gimp_image_map_do_loop.induct)
  case (1 s)
  obtain pending s' where d: "gimp_image_map_do s = (pending, s')"
    by (cases "gimp_image_map_do s")
  with session_kept_do [of s] have k: "session_kept s s'" by simp
  show ?case
  proof (cases pending)
    case True
    with d 1 have "session_kept s' (gimp_image_map_do_loop s')" by simp
    with k have "session_kept s (gimp_image_map_do_loop s')" by (rule session_kept_trans)
    with d True show ?thesis by (subst gimp_image_map_do_loop.simps) simp
  next
    case False
    with d k show ?thesis by (subst gimp_image_map_do_loop.simps) simp
  qed
qed

lemma GEGL_RECTANGLE_eq_iff:
  "GEGL_RECTANGLE a b c d = r \<longleftrightarrow>
   rect_x r = a \<and> rect_y r = b \<and> rect_width r = c \<and> rect_height r = d"
  by (cases r) (auto simp: GEGL_RECTANGLE_def)

lemma buffer_new_frame [simp]:
  "buf_width (gegl_buffer_new r f) = rect_width r"
  "buf_height (gegl_buffer_new r f) = rect_height r"
  "buf_format (gegl_buffer_new r f) = f"
  by (simp_all add: gegl_buffer_new_def)

lemma sample_in_extent:
  "0 \<le> fst q \<Longrightarrow> fst q < buf_width b \<Longrightarrow> 0 \<le> snd q \<Longrightarrow> snd q < buf_height b \<Longrightarrow>
   gegl_buffer_sample b q = buf_pixels b q"
  by (simp add: gegl_buffer_sample_def gegl_buffer_get_extent_def)

lemma update_undo_buffer_frame [simp]:
  "drawable (gimp_image_map_update_undo_buffer r s) = drawable s"
  "gimage (gimp_image_map_update_undo_buffer r s) = gimage s"
  "babl_fish (gimp_image_map_update_undo_buffer r s) = babl_fish s"
  "idle_sources (gimp_image_map_update_undo_buffer r s) = idle_sources s"
  "next_source_id (gimp_image_map_update_undo_buffer r s) = next_source_id s"
  by (simp_all add: gimp_image_map_update_undo_buffer_def Let_def case_prod_beta split: option.splits)

lemma update_undo_buffer_snapshot:
  assumes fresh: "\<forall>ub. undo_buffer (image_map s) = Some ub \<longrightarrow>
            GEGL_RECTANGLE (undo_offset_x (image_map s)) (undo_offset_y (image_map s))
              (buf_width ub) (buf_height ub) \<noteq> r"
    and fmt: "\<forall>ub. undo_buffer (image_map s) = Some ub \<longrightarrow>
            buf_format ub = buf_format (buffer (drawable s))"
  shows "\<exists>ub. undo_buffer (image_map (gimp_image_map_update_undo_buffer r s)) = Some ub \<and>
           buf_width ub = rect_width r \<and> buf_height ub = rect_height r \<and>
           buf_format ub = buf_format (buffer (drawable s)) \<and>
           undo_offset_x (image_map (gimp_image_map_update_undo_buffer r s)) = rect_x r \<and>
           undo_offset_y (image_map (gimp_image_map_update_undo_buffer r s)) = rect_y r \<and>
           (\<forall>q. in_rectangle r q \<longrightarrow>
              buf_pixels ub (fst q - rect_x r, snd q - rect_y r) =
              gegl_buffer_sample (buffer (drawable s)) q)"
proof (cases "undo_buffer (image_map s)")
  case None
  then show ?thesis
    by (simp add: gimp_image_map_update_undo_buffer_def Let_def buffer_copy_pixels
        gegl_buffer_get_extent_def gimp_drawable_get_format_def gimp_drawable_get_buffer_def
        in_rectangle_def)
next
  case (Some ub0)
  with fresh have ne: "undo_offset_x (image_map s) \<noteq> rect_x r \<or> undo_offset_y (image_map s) \<noteq> rect_y r \<or>
      buf_width ub0 \<noteq> rect_width r \<or> buf_height ub0 \<noteq> rect_height r"
    by (auto simp: GEGL_RECTANGLE_eq_iff)
  from Some fmt have f: "buf_format ub0 = buf_format (buffer (drawable s))" by simp
  show ?thesis
  proof (cases "buf_width ub0 \<noteq> rect_width r \<or> buf_height ub0 \<noteq> rect_height r")
    case True
    with Some show ?thesis
      by (simp add: gimp_image_map_update_undo_buffer_def Let_def buffer_copy_pixels
          gegl_buffer_get_extent_def gimp_drawable_get_format_def gimp_drawable_get_buffer_def
          in_rectangle_def)
  next
    case False
    with Some ne f show ?thesis
      by (simp add: gimp_image_map_update_undo_buffer_def Let_def buffer_copy_pixels
          gegl_buffer_get_extent_def gimp_drawable_get_format_def gimp_drawable_get_buffer_def
          in_rectangle_def)
  qed
qed

lemma update_undo_buffer_held:
  assumes "undo_buffer (image_map s) = Some ub"
    and "GEGL_RECTANGLE (undo_offset_x (image_map s)) (undo_offset_y (image_map s))
              (buf_width ub) (buf_height ub) = r"
  shows "gimp_image_map_update_undo_buffer r s = s"
  using assms by (auto simp: gimp_image_map_update_undo_buffer_def Let_def GEGL_RECTANGLE_eq_iff)

lemma update_undo_buffer_agrees:
  assumes fmt: "\<forall>ub. undo_buffer (image_map s) = Some ub \<longrightarrow>
            buf_format ub = buf_format (buffer (drawable s))"
    and agree: "\<forall>ub. undo_buffer (image_map s) = Some ub \<and>
            GEGL_RECTANGLE (undo_offset_x (image_map s)) (undo_offset_y (image_map s))
              (buf_width ub) (buf_height ub) = r \<longrightarrow>
            gegl_buffer_sample ub (fst p - undo_offset_x (image_map s), snd p - undo_offset_y (image_map s)) =
              gegl_buffer_sample (buffer (drawable s)) p"
    and p: "in_rectangle r p"
  shows "\<exists>ub. undo_buffer (image_map (gimp_image_map_update_undo_buffer r s)) = Some ub \<and>
           buf_width ub = rect_width r \<and> buf_height ub = rect_height r \<and>
           buf_format ub = buf_format (buffer (drawable s)) \<and>
           undo_offset_x (image_map (gimp_image_map_update_undo_buffer r s)) = rect_x r \<and>
           undo_offset_y (image_map (gimp_image_map_update_undo_buffer r s)) = rect_y r \<and>
           gegl_buffer_sample ub (fst p - rect_x r, snd p - rect_y r) =
             gegl_buffer_sample (buffer (drawable s)) p"
proof (cases "\<exists>ub. undo_buffer (image_map s) = Some ub \<and>
            GEGL_RECTANGLE (undo_offset_x (image_map s)) (undo_offset_y (image_map s))
              (buf_width ub) (buf_height ub) = r")
  case True
  then obtain ub where ub: "undo_buffer (image_map s) = Some ub"
    and r: "GEGL_RECTANGLE (undo_offset_x (image_map s)) (undo_offset_y (image_map s))
              (buf_width ub) (buf_height ub) = r"
    by blast
  have same: "gimp_image_map_update_undo_buffer r s = s"
    using ub r by (rule update_undo_buffer_held)
  from r have g: "rect_x r = undo_offset_x (image_map s)" "rect_y r = undo_offset_y (image_map s)"
      "rect_width r = buf_width ub" "rect_height r = buf_height ub"
    by (simp_all add: GEGL_RECTANGLE_eq_iff)
  from agree ub r have "gegl_buffer_sample ub (fst p - undo_offset_x (image_map s), snd p - undo_offset_y (image_map s)) =
              gegl_buffer_sample (buffer (drawable s)) p"
    by blast
  with ub fmt g show ?thesis
    unfolding same by simp
next
  case False
  then have fresh: "\<forall>ub. undo_buffer (image_map s) = Some ub \<longrightarrow>
            GEGL_RECTANGLE (undo_offset_x (image_map s)) (undo_offset_y (image_map s))
              (buf_width ub) (buf_height ub) \<noteq> r"
    by blast
  from update_undo_buffer_snapshot [OF fresh fmt] obtain ub where
    ub: "undo_buffer (image_map (gimp_image_map_update_undo_buffer r s)) = Some ub" and
    w: "buf_width ub = rect_width r" and h: "buf_height ub = rect_height r" and
    f: "buf_format ub = buf_format (buffer (drawable s))" and
    ox: "undo_offset_x (image_map (gimp_image_map_update_undo_buffer r s)) = rect_x r" and
    oy: "undo_offset_y (image_map (gimp_image_map_update_undo_buffer r s)) = rect_y r" and
    snap: "\<forall>q. in_rectangle r q \<longrightarrow>
              buf_pixels ub (fst q - rect_x r, snd q - rect_y r) =
              gegl_buffer_sample (buffer (drawable s)) q"
    by blast
  from p w h have "gegl_buffer_sample ub (fst p - rect_x r, snd p - rect_y r) =
      buf_pixels ub (fst p - rect_x r, snd p - rect_y r)"
    by (intro sample_in_extent) (simp_all add: in_rectangle_def)
  with snap p have "gegl_buffer_sample ub (fst p - rect_x r, snd p - rect_y r) =
      gegl_buffer_sample (buffer (drawable s)) p"
    by simp
  with ub w h f ox oy show ?thesis by blast
qed

lemma apply_session:
  assumes "item_attached (drawable s)" and "gimp_item_mask_intersect s = Some r"
  shows "session_kept (gimp_image_map_update_undo_buffer r (gimp_image_map_stop_idle s))
           (gimp_image_map_apply v s)"
  using assms
  by (simp add: gimp_image_map_apply_def Let_def case_prod_beta session_kept_def
      gimp_drawable_get_shadow_buffer_def g_idle_add_def split: option.splits)


lemma clear_pixels:
  assumes "item_attached (drawable t)" and "undo_buffer (image_map t) = Some ub"
    and "buf_format ub = buf_format (buffer (drawable t))"
  shows "buf_pixels (buffer (drawable (gimp_image_map_clear t))) q =
     (if in_rectangle (gegl_buffer_get_extent (buffer (drawable t))) q \<and>
         in_rectangle (GEGL_RECTANGLE (undo_offset_x (image_map t)) (undo_offset_y (image_map t))
                          (buf_width ub) (buf_height ub)) q
      then gegl_buffer_sample ub (fst q - undo_offset_x (image_map t), snd q - undo_offset_y (image_map t))
      else buf_pixels (buffer (drawable t)) q)"
  using assms
  by (simp add: gimp_image_map_clear_def Let_def gimp_drawable_get_format_def
      gimp_drawable_update_def gimp_drawable_get_buffer_def buffer_copy_pixels
      GEGL_RECTANGLE_def in_rectangle_def)

lemma clear_extent:
  "gegl_buffer_get_extent (buffer (drawable (gimp_image_map_clear t))) =
   gegl_buffer_get_extent (buffer (drawable t))"
  by (simp add: gimp_image_map_clear_def Let_def gimp_drawable_get_format_def
      gimp_drawable_update_def gimp_drawable_get_buffer_def g_log_add_def split: option.splits)


lemma push_undo_image_map:
  "image_map (gimp_drawable_push_undo desc buf x y w h s) = image_map s"
  by (simp add: gimp_drawable_push_undo_def gimp_drawable_real_push_undo_def
      gimp_image_undo_push_drawable_def g_return_if_fail_warning_def g_log_add_def Let_def
      split: option.splits)

lemma push_undo_drawable:
  "drawable (gimp_drawable_push_undo desc buf x y w h s) = drawable s"
  by (simp add: gimp_drawable_push_undo_def gimp_drawable_real_push_undo_def
      gimp_image_undo_push_drawable_def g_return_if_fail_warning_def g_log_add_def Let_def
      split: option.splits)

lemma image_map_do_done:
  assumes "gimp_image_map_do s = (False, s')"
  shows "idle_id (image_map s') = 0"
proof (cases "item_attached (drawable s)")
  case False
  with assms show ?thesis by (auto simp: gimp_image_map_do_def)
next
  case True
  obtain pending s1 where w: "gegl_processor_work s = (pending, s1)"
    by (cases "gegl_processor_work s")
  with assms True show ?thesis
    by (auto simp: gimp_image_map_do_def emit_flush_def split: if_splits)
qed

lemma do_loop_idle_id: "idle_id (image_map (gimp_image_map_do_loop s)) = 0"
proof (induction s rule: gimp_image_map_do_loop.induct)
  case (1 s)
  obtain pending s' where d: "gimp_image_map_do s = (pending, s')"
    by (cases "gimp_image_map_do s")
  show ?case
  proof (cases pending)
    case True
    with d 1 show ?thesis
      by (subst gimp_image_map_do_loop.simps) simp
  next
    case False
    with d image_map_do_done [of s s'] show ?thesis
      by (subst gimp_image_map_do_loop.simps) simp
  qed
qed

lemma commit_idle_id: "idle_id (image_map (gimp_image_map_commit s)) = 0"
  by (cases "idle_id (image_map s) = 0")
    (simp_all add: gimp_image_map_commit_def Let_def do_loop_idle_id push_undo_image_map
      split: option.splits)

lemma commit_undo_buffer:
  "item_attached (drawable (gimp_image_map_commit s)) \<Longrightarrow>
   undo_buffer (image_map (gimp_image_map_commit s)) = None"
  by (simp add: gimp_image_map_commit_def Let_def push_undo_image_map push_undo_drawable
      split: option.splits if_splits)

lemma commit_settled:
  assumes "idle_id (image_map s) = 0"
    and "item_attached (drawable s) \<Longrightarrow> undo_buffer (image_map s) = None"
  shows "gimp_image_map_commit s = s"
  using assms by (simp add: gimp_image_map_commit_def)


lemma update_undo_buffer_rect:
  "\<exists>ub. undo_buffer (image_map (gimp_image_map_update_undo_buffer r s)) = Some ub \<and>
        buf_width ub = rect_width r \<and> buf_height ub = rect_height r \<and>
        undo_offset_x (image_map (gimp_image_map_update_undo_buffer r s)) = rect_x r \<and>
        undo_offset_y (image_map (gimp_image_map_update_undo_buffer r s)) = rect_y r"
proof (cases "undo_buffer (image_map s)")
  case None
  then show ?thesis
    by (simp add: gimp_image_map_update_undo_buffer_def Let_def)
next
  case (Some ub0)
  then show ?thesis
    by (simp add: gimp_image_map_update_undo_buffer_def Let_def)
qed

lemma apply_processor:
  assumes "item_attached (drawable s)" and "gimp_item_mask_intersect s = Some r"
  shows "\<exists>links. processor (image_map (gimp_image_map_apply v s)) =
           Some (gegl_node_new_processor (operation (image_map s)) links
                   (undo_buffer (image_map (gimp_image_map_apply v s))) (rect_x r, rect_y r) r)"
proof -
  have op: "operation (image_map (gimp_image_map_update_undo_buffer r (gimp_image_map_stop_idle s))) =
        operation (image_map s)"
    by (simp add: gimp_image_map_update_undo_buffer_def gimp_image_map_stop_idle_def Let_def
        g_source_remove_def case_prod_beta split: option.splits)
  show ?thesis
    using assms op
    by (cases "gegl (image_map (gimp_image_map_update_undo_buffer r (gimp_image_map_stop_idle s)))")
      (simp_all add: gimp_image_map_apply_def Let_def case_prod_beta
        gimp_drawable_get_shadow_buffer_def g_idle_add_def exI split: option.splits)
qed

lemma apply_idle:
  assumes "item_attached (drawable s)" and "gimp_item_mask_intersect s = Some r"
  shows "idle_id (image_map (gimp_image_map_apply v s)) \<noteq> 0 \<and>
         idle_id (image_map (gimp_image_map_apply v s)) \<in> set (idle_sources (gimp_image_map_apply v s))"
  using assms
  by (simp add: gimp_image_map_apply_def Let_def case_prod_beta
      gimp_drawable_get_shadow_buffer_def g_idle_add_def split: option.splits)


lemma shadow_buffer_frame [simp]:
  "buffer (drawable (snd (gimp_drawable_get_shadow_buffer s))) = buffer (drawable s)"
  "item_attached (drawable (snd (gimp_drawable_get_shadow_buffer s))) = item_attached (drawable s)"
  "gimage (snd (gimp_drawable_get_shadow_buffer s)) = gimage s"
  "babl_fish (snd (gimp_drawable_get_shadow_buffer s)) = babl_fish s"
  by (simp_all add: gimp_drawable_get_shadow_buffer_def Let_def split: option.splits)














section \<open>Evaluating the example\<close>

lemmas example_defs = example_session_def example_world_def example_drawable_def example_image_def
  example_layer_def invert_operation_def gimp_image_map_init_def example_converted_def
  gray_snapshot_def example_running_def red_snapshot_def cyan_buffer_def filtered_buffer_def
  example_detached_def example_ticked_def

lemmas run_defs = gimp_image_map_apply_def gimp_image_map_stop_idle_def gimp_item_mask_intersect_def
  gimp_rectangle_intersect_def gimp_image_map_update_undo_buffer_def Let_def
  gimp_drawable_get_shadow_buffer_def g_idle_add_def g_main_context_iteration_def
  gimp_image_map_do_def gegl_processor_work_def gegl_node_new_processor_def clip_chunk_def
  map_filter_simps gimp_image_map_data_written_def gimp_drawable_apply_buffer_def
  gimp_drawable_real_apply_buffer_def gimp_drawable_update_def emit_flush_def
  g_source_remove_def gimp_drawable_get_buffer_def gimp_drawable_get_format_def
  gegl_buffer_copy_def gegl_buffer_new_def gegl_buffer_sample_def gegl_buffer_get_extent_def
  invert_pixel_def red_def cyan_def abyss_pixel_def gimp_image_map_commit_def
  gimp_image_map_do_loop.simps gimp_drawable_push_undo_def gimp_drawable_real_push_undo_def
  gimp_image_undo_push_drawable_def gimp_image_map_clear_def g_log_add_def

lemma example_attached: "item_attached (drawable example_session)"
  by (simp add: example_defs)

lemma example_region: "gimp_item_mask_intersect example_session = Some (GEGL_RECTANGLE 10 10 20 20)"
  by (simp add: gimp_item_mask_intersect_def gimp_rectangle_intersect_def Let_def example_defs)

lemma example_no_snapshot: "undo_buffer (image_map example_session) = None"
  by (simp add: example_defs)

lemma example_first_tick:
  "gegl_buffer_sample (buffer (drawable (g_main_context_iteration
      (gimp_image_map_apply visible example_session)))) (12, 10) = cyan"
  by (simp add: run_defs example_defs)

lemma example_ticked_eval:
  "item_attached (drawable example_ticked)"
  "gimp_item_mask_intersect example_ticked = Some (GEGL_RECTANGLE 10 10 20 20)"
  "map_option buf_format (undo_buffer (image_map example_ticked)) = Some ''RGBA u8''"
  "map_option buf_width (undo_buffer (image_map example_ticked)) = Some 20"
  "map_option buf_height (undo_buffer (image_map example_ticked)) = Some 20"
  "map_option (\<lambda>ub. gegl_buffer_sample ub (5, 5)) (undo_buffer (image_map example_ticked)) = Some red"
  "undo_offset_x (image_map example_ticked) = 10"
  "undo_offset_y (image_map example_ticked) = 10"
  "gimp_drawable_get_format example_ticked = ''RGBA u8''"
  "gegl_buffer_sample (buffer (drawable example_ticked)) (15, 15) = red"
  "gegl_buffer_sample (buffer (drawable example_ticked)) (12, 10) = cyan"
  "\<not> mask_empty (gimage example_ticked)"
  "\<not> mask_coverage (gimage example_ticked) (15, 15)"
  "map_option (\<lambda>ub. gegl_buffer_sample ub (2, 5)) (undo_buffer (image_map example_ticked)) = Some red"
  "gegl_buffer_sample (buffer (drawable example_ticked)) (12, 15) = red"
  by (simp_all add: run_defs example_defs)

lemma example_commit_undo:
  "map (\<lambda>u. (du_desc u, du_x u, du_y u, buf_width (du_buffer u), buf_height (du_buffer u)))
     (undo_stack (gimage (gimp_image_map_commit (gimp_image_map_apply visible example_session)))) =
   [(''Invert'', 10, 10, 20, 20)]"
  by (simp add: run_defs example_defs)

section \<open>The claims about the image map\<close>

text \<open>
  Claim C1, as amended. Running apply over a region and then clear restores the
  drawable's pixels to their contents before the apply, for every pixel \<open>p\<close> of the
  processed region at which a snapshot of that very region that the image map holds
  already, if there is one, has the drawable's value: the snapshot that
  \<^verbatim>\<open>gimp_image_map_update_undo_buffer\<close> leaves at apply time is copied back by
  \<^verbatim>\<open>gimp_image_map_clear\<close> at the recorded anchor. The drawable is attached, the
  processed region \<open>r\<close> is the one \<^verbatim>\<open>gimp_item_mask_intersect\<close> returns, and a snapshot
  held before has the drawable's format. Between apply and clear the main loop may run
  the filter for any number \<open>n\<close> of turns, whatever the filter computes.

  The condition on a snapshot held before is not in the claim, and it is needed:
  \<^verbatim>\<open>gimp_image_map_update_undo_buffer\<close> copies only when there is no snapshot or its
  offsets or size differ from the region's. In the counterexample apply runs a second
  time after one turn of the main loop has filtered the first row of the region: the
  older snapshot is kept, and clear puts back the red pixel of before the first apply
  where the drawable was cyan before the second.
\<close>

theorem C1_apply_clear_restores:
  assumes att: "item_attached (drawable s)"
    and region: "gimp_item_mask_intersect s = Some r"
    and fmt: "\<forall>ub. undo_buffer (image_map s) = Some ub \<longrightarrow>
            buf_format ub = gimp_drawable_get_format s"
    and agree: "\<forall>ub. undo_buffer (image_map s) = Some ub \<and>
            GEGL_RECTANGLE (undo_offset_x (image_map s)) (undo_offset_y (image_map s))
              (buf_width ub) (buf_height ub) = r \<longrightarrow>
            gegl_buffer_sample ub (fst p - undo_offset_x (image_map s), snd p - undo_offset_y (image_map s)) =
              gegl_buffer_sample (buffer (drawable s)) p"
    and p: "in_rectangle r p"
  shows "gegl_buffer_sample
           (buffer (drawable (gimp_image_map_clear
              ((g_main_context_iteration ^^ n) (gimp_image_map_apply visible s))))) p =
         gegl_buffer_sample (buffer (drawable s)) p"
proof -
  let ?i = "gimp_image_map_stop_idle s"
  let ?u = "gimp_image_map_update_undo_buffer r ?i"
  let ?a = "gimp_image_map_apply visible s"
  let ?t = "(g_main_context_iteration ^^ n) ?a"
  have fmt': "\<forall>ub. undo_buffer (image_map ?i) = Some ub \<longrightarrow>
            buf_format ub = buf_format (buffer (drawable ?i))"
    using fmt by (simp add: gimp_drawable_get_format_def)
  have agree': "\<forall>ub. undo_buffer (image_map ?i) = Some ub \<and>
            GEGL_RECTANGLE (undo_offset_x (image_map ?i)) (undo_offset_y (image_map ?i))
              (buf_width ub) (buf_height ub) = r \<longrightarrow>
            gegl_buffer_sample ub (fst p - undo_offset_x (image_map ?i), snd p - undo_offset_y (image_map ?i)) =
              gegl_buffer_sample (buffer (drawable ?i)) p"
    using agree by simp
  from update_undo_buffer_agrees [OF fmt' agree' p] obtain ub where
    ub: "undo_buffer (image_map ?u) = Some ub" and
    w: "buf_width ub = rect_width r" and h: "buf_height ub = rect_height r" and
    f: "buf_format ub = buf_format (buffer (drawable s))" and
    ox: "undo_offset_x (image_map ?u) = rect_x r" and oy: "undo_offset_y (image_map ?u) = rect_y r" and
    snap: "gegl_buffer_sample ub (fst p - rect_x r, snd p - rect_y r) =
              gegl_buffer_sample (buffer (drawable s)) p"
    by auto
  have "session_kept ?u ?t"
    using apply_session [OF att region] session_kept_iterations session_kept_trans by blast
  then have t: "undo_buffer (image_map ?t) = Some ub" "undo_offset_x (image_map ?t) = rect_x r"
      "undo_offset_y (image_map ?t) = rect_y r" "item_attached (drawable ?t)"
      "buf_width (buffer (drawable ?t)) = buf_width (buffer (drawable s))"
      "buf_height (buffer (drawable ?t)) = buf_height (buffer (drawable s))"
      "buf_format (buffer (drawable ?t)) = buf_format (buffer (drawable s))"
    using ub ox oy att by (simp_all add: session_kept_def)
  from t have ext: "gegl_buffer_get_extent (buffer (drawable ?t)) = gegl_buffer_get_extent (buffer (drawable s))"
    by (simp add: gegl_buffer_get_extent_def)
  have px: "buf_pixels (buffer (drawable (gimp_image_map_clear ?t))) p =
     (if in_rectangle (gegl_buffer_get_extent (buffer (drawable s))) p
      then gegl_buffer_sample ub (fst p - rect_x r, snd p - rect_y r)
      else buf_pixels (buffer (drawable ?t)) p)"
    using clear_pixels [of ?t ub p] t f w h p ext by simp
  with snap show ?thesis
    using clear_extent [of ?t] ext
    by (simp add: gegl_buffer_sample_def)
qed

theorem C1_witness:
  "item_attached (drawable example_session) \<and>
   gimp_item_mask_intersect example_session = Some (GEGL_RECTANGLE 10 10 20 20) \<and>
   undo_buffer (image_map example_session) = None \<and>
   in_rectangle (GEGL_RECTANGLE 10 10 20 20) (12, 10) \<and>
   gegl_buffer_sample (buffer (drawable example_session)) (12, 10) = red \<and>
   gegl_buffer_sample (buffer (drawable (g_main_context_iteration
      (gimp_image_map_apply (GEGL_RECTANGLE 0 0 50 50) example_session)))) (12, 10) = cyan \<and>
   gegl_buffer_sample (buffer (drawable (gimp_image_map_clear
      ((g_main_context_iteration ^^ 1)
         (gimp_image_map_apply (GEGL_RECTANGLE 0 0 50 50) example_session))))) (12, 10) = red \<and>
   item_attached (drawable example_ticked) \<and>
   gimp_item_mask_intersect example_ticked = Some (GEGL_RECTANGLE 10 10 20 20) \<and>
   in_rectangle (GEGL_RECTANGLE 10 10 20 20) (12, 15) \<and>
   map_option (\<lambda>ub. gegl_buffer_sample ub (2, 5)) (undo_buffer (image_map example_ticked)) = Some red \<and>
   gegl_buffer_sample (buffer (drawable example_ticked)) (12, 15) = red \<and>
   gegl_buffer_sample (buffer (drawable (gimp_image_map_clear
      ((g_main_context_iteration ^^ 1)
         (gimp_image_map_apply (GEGL_RECTANGLE 0 0 50 50) example_ticked))))) (12, 15) = red"
proof -
  have before: "gegl_buffer_sample (buffer (drawable example_session)) (12, 10) = red"
    by (simp add: example_defs gegl_buffer_sample_def gegl_buffer_get_extent_def)
  have inside: "in_rectangle (GEGL_RECTANGLE 10 10 20 20) (12, 10)"
    "in_rectangle (GEGL_RECTANGLE 10 10 20 20) (12, 15)"
    by simp_all
  have first: "gegl_buffer_sample (buffer (drawable (gimp_image_map_clear
      ((g_main_context_iteration ^^ 1)
         (gimp_image_map_apply (GEGL_RECTANGLE 0 0 50 50) example_session))))) (12, 10) =
     gegl_buffer_sample (buffer (drawable example_session)) (12, 10)"
    using example_attached example_region _ _ inside(1)
    by (rule C1_apply_clear_restores) (simp_all add: example_no_snapshot)
  obtain held where held: "undo_buffer (image_map example_ticked) = Some held"
    "buf_format held = ''RGBA u8''" "gegl_buffer_sample held (2, 5) = red"
    using example_ticked_eval(3,14) by auto
  have second: "gegl_buffer_sample (buffer (drawable (gimp_image_map_clear
      ((g_main_context_iteration ^^ 1)
         (gimp_image_map_apply (GEGL_RECTANGLE 0 0 50 50) example_ticked))))) (12, 15) =
     gegl_buffer_sample (buffer (drawable example_ticked)) (12, 15)"
    using example_ticked_eval(1,2) _ _ inside(2)
    by (rule C1_apply_clear_restores) (simp_all add: held example_ticked_eval(7-9,15))
  from first second before inside example_attached example_region example_no_snapshot
    example_first_tick example_ticked_eval(1,2,14,15)
  show ?thesis by simp
qed

theorem C1_counterexample:
  "item_attached (drawable example_ticked) \<and>
   gimp_item_mask_intersect example_ticked = Some (GEGL_RECTANGLE 10 10 20 20) \<and>
   in_rectangle (GEGL_RECTANGLE 10 10 20 20) (12, 10) \<and>
   map_option buf_format (undo_buffer (image_map example_ticked)) =
     Some (gimp_drawable_get_format example_ticked) \<and>
   gegl_buffer_sample (buffer (drawable example_ticked)) (12, 10) = cyan \<and>
   gegl_buffer_sample (buffer (drawable (gimp_image_map_clear
      (gimp_image_map_apply (GEGL_RECTANGLE 0 0 50 50) example_ticked)))) (12, 10) = red"
proof -
  have "gegl_buffer_sample (buffer (drawable (gimp_image_map_clear
      (gimp_image_map_apply (GEGL_RECTANGLE 0 0 50 50) example_ticked)))) (12, 10) = red"
    by (simp add: run_defs example_defs)
  with example_ticked_eval show ?thesis by simp
qed




text \<open>
  Claim C4. \<^verbatim>\<open>gimp_image_map_apply\<close> takes as its processing region the intersection of
  the drawable's bounds and the bounding box of the selection: the region \<open>r\<close> holds the
  pixels that lie in both, the snapshot is anchored at \<open>r\<close> with the size of \<open>r\<close>, and the
  processor scheduled on the main loop is made for \<open>r\<close>. When the intersection is empty
  or the drawable is detached, apply leaves the drawable, the image and the log as they
  are, keeps the snapshot field as it is, and leaves no work scheduled. The
  intersection is empty exactly when no pixel lies in both rectangles.
\<close>

theorem C4_apply_region:
  shows "(item_attached (drawable s) \<and> gimp_item_mask_intersect s = Some r \<longrightarrow>
            (\<forall>p. in_rectangle r p \<longleftrightarrow>
                 in_rectangle (mask_bounds (gimage s)) p \<and>
                 in_rectangle (GEGL_RECTANGLE 0 0 (item_width (drawable s)) (item_height (drawable s))) p) \<and>
            undo_offset_x (image_map (gimp_image_map_apply visible s)) = rect_x r \<and>
            undo_offset_y (image_map (gimp_image_map_apply visible s)) = rect_y r \<and>
            map_option buf_width (undo_buffer (image_map (gimp_image_map_apply visible s))) =
              Some (rect_width r) \<and>
            map_option buf_height (undo_buffer (image_map (gimp_image_map_apply visible s))) =
              Some (rect_height r) \<and>
            (\<exists>links. processor (image_map (gimp_image_map_apply visible s)) =
               Some (gegl_node_new_processor (operation (image_map s)) links
                       (undo_buffer (image_map (gimp_image_map_apply visible s)))
                       (rect_x r, rect_y r) r)) \<and>
            idle_id (image_map (gimp_image_map_apply visible s)) \<in>
              set (idle_sources (gimp_image_map_apply visible s)))
       \<and> (\<not> item_attached (drawable s) \<or> gimp_item_mask_intersect s = None \<longrightarrow>
            drawable (gimp_image_map_apply visible s) = drawable s \<and>
            gimage (gimp_image_map_apply visible s) = gimage s \<and>
            g_log (gimp_image_map_apply visible s) = g_log s \<and>
            undo_buffer (image_map (gimp_image_map_apply visible s)) = undo_buffer (image_map s) \<and>
            idle_id (image_map (gimp_image_map_apply visible s)) = 0 \<and>
            set (idle_sources (gimp_image_map_apply visible s)) \<subseteq> set (idle_sources s))
       \<and> (gimp_item_mask_intersect s = None \<longleftrightarrow>
            (\<forall>p. \<not> (in_rectangle (mask_bounds (gimage s)) p \<and>
                 in_rectangle (GEGL_RECTANGLE 0 0 (item_width (drawable s)) (item_height (drawable s))) p)))"
proof (intro conjI impI)
  assume a: "item_attached (drawable s) \<and> gimp_item_mask_intersect s = Some r"
  then have att: "item_attached (drawable s)" and m: "gimp_item_mask_intersect s = Some r"
    by simp_all
  from m show "\<forall>p. in_rectangle r p \<longleftrightarrow>
                 in_rectangle (mask_bounds (gimage s)) p \<and>
                 in_rectangle (GEGL_RECTANGLE 0 0 (item_width (drawable s)) (item_height (drawable s))) p"
    using rectangle_intersect_iff [of "rect_x (mask_bounds (gimage s))" "rect_y (mask_bounds (gimage s))"
        "rect_width (mask_bounds (gimage s))" "rect_height (mask_bounds (gimage s))" 0 0
        "item_width (drawable s)" "item_height (drawable s)" r]
    by (simp add: gimp_item_mask_intersect_def Let_def)
  obtain ub where ub: "undo_buffer (image_map (gimp_image_map_update_undo_buffer r (gimp_image_map_stop_idle s))) = Some ub"
    "buf_width ub = rect_width r" "buf_height ub = rect_height r"
    "undo_offset_x (image_map (gimp_image_map_update_undo_buffer r (gimp_image_map_stop_idle s))) = rect_x r"
    "undo_offset_y (image_map (gimp_image_map_update_undo_buffer r (gimp_image_map_stop_idle s))) = rect_y r"
    using update_undo_buffer_rect [of r "gimp_image_map_stop_idle s"] by blast
  from apply_session [OF att m, of visible] ub
  show "undo_offset_x (image_map (gimp_image_map_apply visible s)) = rect_x r"
    and "undo_offset_y (image_map (gimp_image_map_apply visible s)) = rect_y r"
    and "map_option buf_width (undo_buffer (image_map (gimp_image_map_apply visible s))) = Some (rect_width r)"
    and "map_option buf_height (undo_buffer (image_map (gimp_image_map_apply visible s))) = Some (rect_height r)"
    by (simp_all add: session_kept_def)
  from apply_processor [OF att m]
  show "\<exists>links. processor (image_map (gimp_image_map_apply visible s)) =
               Some (gegl_node_new_processor (operation (image_map s)) links
                       (undo_buffer (image_map (gimp_image_map_apply visible s)))
                       (rect_x r, rect_y r) r)" .
  from apply_idle [OF att m]
  show "idle_id (image_map (gimp_image_map_apply visible s)) \<in>
              set (idle_sources (gimp_image_map_apply visible s))" by simp
next
  assume "\<not> item_attached (drawable s) \<or> gimp_item_mask_intersect s = None"
  then have e: "gimp_image_map_apply visible s = gimp_image_map_stop_idle s"
    by (auto simp: gimp_image_map_apply_def Let_def)
  show "drawable (gimp_image_map_apply visible s) = drawable s"
    and "gimage (gimp_image_map_apply visible s) = gimage s"
    and "g_log (gimp_image_map_apply visible s) = g_log s"
    and "undo_buffer (image_map (gimp_image_map_apply visible s)) = undo_buffer (image_map s)"
    and "idle_id (image_map (gimp_image_map_apply visible s)) = 0"
    and "set (idle_sources (gimp_image_map_apply visible s)) \<subseteq> set (idle_sources s)"
    unfolding e by (simp_all add: stop_idle_sources)
next
  let ?m = "mask_bounds (gimage s)"
  show "gimp_item_mask_intersect s = None \<longleftrightarrow>
            (\<forall>p. \<not> (in_rectangle ?m p \<and>
                 in_rectangle (GEGL_RECTANGLE 0 0 (item_width (drawable s)) (item_height (drawable s))) p))"
  proof
    assume "gimp_item_mask_intersect s = None"
    then show "\<forall>p. \<not> (in_rectangle ?m p \<and>
                 in_rectangle (GEGL_RECTANGLE 0 0 (item_width (drawable s)) (item_height (drawable s))) p)"
      using rectangle_intersect_None [of "rect_x ?m" "rect_y ?m" "rect_width ?m" "rect_height ?m" 0 0
        "item_width (drawable s)" "item_height (drawable s)"]
      by (simp add: gimp_item_mask_intersect_def Let_def)
  next
    assume none: "\<forall>p. \<not> (in_rectangle ?m p \<and>
                 in_rectangle (GEGL_RECTANGLE 0 0 (item_width (drawable s)) (item_height (drawable s))) p)"
    show "gimp_item_mask_intersect s = None"
    proof (cases "gimp_item_mask_intersect s")
      case None
      then show ?thesis .
    next
      case (Some r')
      then have i: "gimp_rectangle_intersect (rect_x ?m) (rect_y ?m) (rect_width ?m) (rect_height ?m) 0 0
          (item_width (drawable s)) (item_height (drawable s)) = Some r'"
        by (simp add: gimp_item_mask_intersect_def Let_def)
      then have "rect_width r' > 0 \<and> rect_height r' > 0"
        by (auto simp: gimp_rectangle_intersect_def Let_def split: if_splits)
      then have "in_rectangle r' (rect_x r', rect_y r')"
        by (simp add: in_rectangle_def)
      with rectangle_intersect_iff [OF i, of "(rect_x r', rect_y r')"]
      have "in_rectangle ?m (rect_x r', rect_y r') \<and>
            in_rectangle (GEGL_RECTANGLE 0 0 (item_width (drawable s)) (item_height (drawable s)))
              (rect_x r', rect_y r')"
        by simp
      with none show ?thesis by blast
    qed
  qed
qed

theorem C4_witness:
  "item_attached (drawable example_session) \<and>
   gimp_item_mask_intersect example_session = Some (GEGL_RECTANGLE 10 10 20 20) \<and>
   undo_offset_x (image_map (gimp_image_map_apply (GEGL_RECTANGLE 0 0 50 50) example_session)) = 10 \<and>
   undo_offset_y (image_map (gimp_image_map_apply (GEGL_RECTANGLE 0 0 50 50) example_session)) = 10 \<and>
   map_option buf_width (undo_buffer (image_map
     (gimp_image_map_apply (GEGL_RECTANGLE 0 0 50 50) example_session))) = Some 20 \<and>
   gimp_item_mask_intersect
     (example_session\<lparr>gimage := example_image\<lparr>mask_bounds := GEGL_RECTANGLE 200 200 5 5\<rparr>\<rparr>) = None \<and>
   drawable (gimp_image_map_apply (GEGL_RECTANGLE 0 0 50 50)
     (example_session\<lparr>gimage := example_image\<lparr>mask_bounds := GEGL_RECTANGLE 200 200 5 5\<rparr>\<rparr>)) =
     drawable example_session \<and>
   undo_buffer (image_map (gimp_image_map_apply (GEGL_RECTANGLE 0 0 50 50)
     (example_session\<lparr>gimage := example_image\<lparr>mask_bounds := GEGL_RECTANGLE 200 200 5 5\<rparr>\<rparr>))) = None \<and>
   idle_id (image_map (gimp_image_map_apply (GEGL_RECTANGLE 0 0 50 50)
     (example_session\<lparr>gimage := example_image\<lparr>mask_bounds := GEGL_RECTANGLE 200 200 5 5\<rparr>\<rparr>))) = 0"
proof -
  let ?out = "example_session\<lparr>gimage := example_image\<lparr>mask_bounds := GEGL_RECTANGLE 200 200 5 5\<rparr>\<rparr>"
  have out: "gimp_item_mask_intersect ?out = None"
    by (simp add: gimp_item_mask_intersect_def gimp_rectangle_intersect_def Let_def example_defs)
  have same: "drawable ?out = drawable example_session" "undo_buffer (image_map ?out) = None"
    by (simp_all add: example_defs)
  show ?thesis
    using C4_apply_region [of example_session "GEGL_RECTANGLE 10 10 20 20" "GEGL_RECTANGLE 0 0 50 50"]
      C4_apply_region [of ?out "GEGL_RECTANGLE 0 0 0 0" "GEGL_RECTANGLE 0 0 50 50"]
      example_attached example_region out same
    by simp
qed

text \<open>
  Claim C5. Calling commit twice in a row leaves the whole state (the drawable, the undo
  stack, the image map) as calling it once does: the first call has drained the
  processor and, for an attached drawable, released the snapshot, so the second pushes
  no undo record and does no work.
\<close>

theorem C5_commit_idempotent:
  "gimp_image_map_commit (gimp_image_map_commit s) = gimp_image_map_commit s"
  by (rule commit_settled) (simp_all add: commit_idle_id commit_undo_buffer)

theorem C5_witness:
  "gimp_image_map_commit (gimp_image_map_commit
      (gimp_image_map_apply (GEGL_RECTANGLE 0 0 50 50) example_session)) =
     gimp_image_map_commit (gimp_image_map_apply (GEGL_RECTANGLE 0 0 50 50) example_session) \<and>
   map (\<lambda>u. (du_desc u, du_x u, du_y u, buf_width (du_buffer u), buf_height (du_buffer u)))
     (undo_stack (gimage (gimp_image_map_commit (gimp_image_map_commit
        (gimp_image_map_apply (GEGL_RECTANGLE 0 0 50 50) example_session))))) =
   [(''Invert'', 10, 10, 20, 20)]"
  using C5_commit_idempotent [of "gimp_image_map_apply (GEGL_RECTANGLE 0 0 50 50) example_session"]
    example_commit_undo [of "GEGL_RECTANGLE 0 0 50 50"]
  by simp

text \<open>
  Claim C6, as amended. When the drawable is still attached and the snapshot's pixel
  format differs from the drawable's at clear time, \<^verbatim>\<open>gimp_image_map_clear\<close> logs the
  message (through \<^verbatim>\<open>g_message\<close>, at the message level), copies nothing into the
  drawable, and releases the snapshot all the same.

  That the drawable is attached is not in the claim, and it is needed:
  \<^verbatim>\<open>gimp_image_map_clear\<close> returns at its attachment check before it looks at the
  snapshot. In the counterexample the drawable has been removed from the image: no
  message is logged and the snapshot is still held.
\<close>

theorem C6_clear_format_mismatch:
  assumes "item_attached (drawable s)"
    and "undo_buffer (image_map s) = Some ub"
    and "buf_format ub \<noteq> gimp_drawable_get_format s"
  shows "drawable (gimp_image_map_clear s) = drawable s \<and>
         g_log (gimp_image_map_clear s) =
           g_log s @ [(G_LOG_LEVEL_MESSAGE, ''image depth change, unable to restore original image'')] \<and>
         undo_buffer (image_map (gimp_image_map_clear s)) = None"
  using assms
  by (simp add: gimp_image_map_clear_def Let_def gimp_drawable_get_format_def g_log_add_def)

theorem C6_witness:
  "item_attached (drawable example_converted) \<and>
   undo_buffer (image_map example_converted) = Some gray_snapshot \<and>
   buf_format gray_snapshot \<noteq> gimp_drawable_get_format example_converted \<and>
   drawable (gimp_image_map_clear example_converted) = drawable example_converted \<and>
   g_log (gimp_image_map_clear example_converted) =
     [(G_LOG_LEVEL_MESSAGE, ''image depth change, unable to restore original image'')] \<and>
   undo_buffer (image_map (gimp_image_map_clear example_converted)) = None"
  using C6_clear_format_mismatch [of example_converted gray_snapshot]
  by (simp add: example_defs gimp_drawable_get_format_def)

theorem C6_counterexample:
  "\<not> item_attached (drawable example_detached) \<and>
   undo_buffer (image_map example_detached) = Some gray_snapshot \<and>
   buf_format gray_snapshot \<noteq> gimp_drawable_get_format example_detached \<and>
   g_log (gimp_image_map_clear example_detached) = [] \<and>
   undo_buffer (image_map (gimp_image_map_clear example_detached)) = Some gray_snapshot"
  by (simp add: example_defs gimp_image_map_clear_def gimp_image_map_stop_idle_def
      gimp_drawable_get_format_def)

text \<open>
  Claim C9. The rectangle passed to \<^verbatim>\<open>gimp_image_map_apply\<close> is never read: two calls
  that differ in it only end in the same state, with the same snapshot, the same
  processor and, from there on, the same pixels.
\<close>

theorem C9_apply_ignores_rectangle:
  "gimp_image_map_apply v1 s = gimp_image_map_apply v2 s"
  by (simp add: gimp_image_map_apply_def)

theorem C9_witness:
  "gimp_image_map_apply (GEGL_RECTANGLE 0 0 1 1) example_session =
     gimp_image_map_apply (GEGL_RECTANGLE 50 50 10 10) example_session"
  by (rule C9_apply_ignores_rectangle)

text \<open>
  Claim C10. While the image map holds a snapshot, \<^verbatim>\<open>gimp_image_map_get_pixel_at\<close>
  returns the snapshot's pixel for a coordinate inside both the drawable's bounds and
  the snapshot's rectangle, the drawable's live pixel for a coordinate inside the
  bounds and outside that rectangle, and no pixel (\<^verbatim>\<open>FALSE\<close>) outside the drawable's
  bounds. The pixel comes in the format asked for.
\<close>

theorem C10_get_pixel_at:
  assumes "undo_buffer (image_map s) = Some ub"
  shows "gimp_image_map_get_pixel_at x y format s =
     (if in_rectangle (GEGL_RECTANGLE 0 0 (item_width (drawable s)) (item_height (drawable s))) (x, y)
      then if in_rectangle (GEGL_RECTANGLE (undo_offset_x (image_map s)) (undo_offset_y (image_map s))
                 (buf_width ub) (buf_height ub)) (x, y)
           then Some (babl_process (babl_fish s) (buf_format ub) format
                   (buf_pixels ub (x - undo_offset_x (image_map s), y - undo_offset_y (image_map s))))
           else Some (babl_process (babl_fish s) (gimp_drawable_get_format s) format
                   (gegl_buffer_sample (gimp_drawable_get_buffer s) (x, y)))
      else None)"
  using assms
  by (auto simp: gimp_image_map_get_pixel_at_def Let_def
       gimp_drawable_get_pixel_at_def gegl_buffer_sample_def gegl_buffer_get_extent_def)

theorem C10_witness:
  "undo_buffer (image_map example_converted) = Some gray_snapshot \<and>
   gimp_image_map_get_pixel_at 3 4 ''Y u8'' example_converted = Some [7] \<and>
   gimp_image_map_get_pixel_at 2 4 ''RGBA u8'' example_converted = Some red \<and>
   gimp_image_map_get_pixel_at 100 4 ''RGBA u8'' example_converted = None \<and>
   gimp_image_map_get_pixel_at 3 (- 1) ''RGBA u8'' example_converted = None"
  using C10_get_pixel_at [of example_converted gray_snapshot 3 4 "''Y u8''"]
    C10_get_pixel_at [of example_converted gray_snapshot 2 4 "''RGBA u8''"]
    C10_get_pixel_at [of example_converted gray_snapshot 100 4 "''RGBA u8''"]
    C10_get_pixel_at [of example_converted gray_snapshot 3 "- 1" "''RGBA u8''"]
  by (simp add: example_defs gimp_drawable_get_format_def gimp_drawable_get_buffer_def
      gegl_buffer_sample_def gegl_buffer_get_extent_def red_def)


section \<open>What the graph operations leave alone\<close>

lemmas graph_defs = gegl_node_connect_to_def gegl_node_disconnect_def gegl_node_add_child_def
  gegl_node_remove_child_def gimp_layer_get_source_node_def gimp_gegl_mode_node_set_def

lemma gegl_node_frame [simp]:
  "drawable (gegl_node_connect_to a b c d s) = drawable s"
  "layers (gegl_node_connect_to a b c d s) = layers s"
  "gimage (gegl_node_connect_to a b c d s) = gimage s"
  "g_log (gegl_node_connect_to a b c d s) = g_log s"
  "drawable (gegl_node_disconnect a b s) = drawable s"
  "layers (gegl_node_disconnect a b s) = layers s"
  "gimage (gegl_node_disconnect a b s) = gimage s"
  "g_log (gegl_node_disconnect a b s) = g_log s"
  "drawable (gegl_node_add_child gr a s) = drawable s"
  "layers (gegl_node_add_child gr a s) = layers s"
  "gimage (gegl_node_add_child gr a s) = gimage s"
  "g_log (gegl_node_add_child gr a s) = g_log s"
  "drawable (gegl_node_remove_child gr a s) = drawable s"
  "layers (gegl_node_remove_child gr a s) = layers s"
  "gimage (gegl_node_remove_child gr a s) = gimage s"
  "g_log (gegl_node_remove_child gr a s) = g_log s"
  by (simp_all add: gegl_node_connect_to_def gegl_node_disconnect_def gegl_node_add_child_def
      gegl_node_remove_child_def)

lemma layer_get_source_node_frame [simp]:
  "drawable (gimp_layer_get_source_node f s) = drawable s"
  "gimage (gimp_layer_get_source_node f s) = gimage s"
  "g_log (gimp_layer_get_source_node f s) = g_log s"
  "layer_offset_x (layers (gimp_layer_get_source_node f s) g) = layer_offset_x (layers s g)"
  "layer_offset_y (layers (gimp_layer_get_source_node f s) g) = layer_offset_y (layers s g)"
  "layer_width (layers (gimp_layer_get_source_node f s) g) = layer_width (layers s g)"
  "layer_height (layers (gimp_layer_get_source_node f s) g) = layer_height (layers s g)"
  "layer_mode (layers (gimp_layer_get_source_node f s) g) = layer_mode (layers s g)"
  "layer_opacity (layers (gimp_layer_get_source_node f s) g) = layer_opacity (layers s g)"
  by (simp_all add: gimp_layer_get_source_node_def)

lemma sync_source_node_frame:
  "item_attached (drawable (gimp_drawable_sync_source_node d s)) = item_attached (drawable s)"
  "item_offset_x (drawable (gimp_drawable_sync_source_node d s)) = item_offset_x (drawable s)"
  "item_offset_y (drawable (gimp_drawable_sync_source_node d s)) = item_offset_y (drawable s)"
  "item_width (drawable (gimp_drawable_sync_source_node d s)) = item_width (drawable s)"
  "item_height (drawable (gimp_drawable_sync_source_node d s)) = item_height (drawable s)"
  "source_node (drawable (gimp_drawable_sync_source_node d s)) = source_node (drawable s)"
  "floating_selection (drawable (gimp_drawable_sync_source_node d s)) = floating_selection (drawable s)"
  "update_signals (drawable (gimp_drawable_sync_source_node d s)) = update_signals (drawable s)"
  "gimage (gimp_drawable_sync_source_node d s) = gimage s"
  "g_log (gimp_drawable_sync_source_node d s) = g_log s"
  by (simp_all add: gimp_drawable_sync_source_node_def Let_def split: option.splits)

lemma sync_source_node_layers:
  "layer_offset_x (layers (gimp_drawable_sync_source_node d s) g) = layer_offset_x (layers s g)"
  "layer_offset_y (layers (gimp_drawable_sync_source_node d s) g) = layer_offset_y (layers s g)"
  "layer_width (layers (gimp_drawable_sync_source_node d s) g) = layer_width (layers s g)"
  "layer_height (layers (gimp_drawable_sync_source_node d s) g) = layer_height (layers s g)"
  by (simp_all add: gimp_drawable_sync_source_node_def Let_def split: option.splits)



lemma fs_update_frame [simp]:
  "item_attached (drawable (gimp_drawable_fs_update f x y w h s)) = item_attached (drawable s)"
  "item_offset_x (drawable (gimp_drawable_fs_update f x y w h s)) = item_offset_x (drawable s)"
  "item_offset_y (drawable (gimp_drawable_fs_update f x y w h s)) = item_offset_y (drawable s)"
  "item_width (drawable (gimp_drawable_fs_update f x y w h s)) = item_width (drawable s)"
  "item_height (drawable (gimp_drawable_fs_update f x y w h s)) = item_height (drawable s)"
  "source_node (drawable (gimp_drawable_fs_update f x y w h s)) = source_node (drawable s)"
  "floating_selection (drawable (gimp_drawable_fs_update f x y w h s)) = floating_selection (drawable s)"
  "layers (gimp_drawable_fs_update f x y w h s) = layers s"
  "gimage (gimp_drawable_fs_update f x y w h s) = gimage s"
  "g_log (gimp_drawable_fs_update f x y w h s) = g_log s"
  "connections (gimp_drawable_fs_update f x y w h s) = connections s"
  by (simp_all add: gimp_drawable_fs_update_def Let_def gimp_drawable_update_def split: option.splits)

lemma get_source_node_frame:
  "source_node (drawable (gimp_drawable_get_source_node s))"
  "item_attached (drawable (gimp_drawable_get_source_node s)) = item_attached (drawable s)"
  "item_offset_x (drawable (gimp_drawable_get_source_node s)) = item_offset_x (drawable s)"
  "item_offset_y (drawable (gimp_drawable_get_source_node s)) = item_offset_y (drawable s)"
  "item_width (drawable (gimp_drawable_get_source_node s)) = item_width (drawable s)"
  "item_height (drawable (gimp_drawable_get_source_node s)) = item_height (drawable s)"
  "floating_selection (drawable (gimp_drawable_get_source_node s)) = floating_selection (drawable s)"
  "gimage (gimp_drawable_get_source_node s) = gimage s"
  "g_log (gimp_drawable_get_source_node s) = g_log s"
  "layer_offset_x (layers (gimp_drawable_get_source_node s) g) = layer_offset_x (layers s g)"
  "layer_offset_y (layers (gimp_drawable_get_source_node s) g) = layer_offset_y (layers s g)"
  by (simp_all add: gimp_drawable_get_source_node_def sync_source_node_frame sync_source_node_layers)

lemma attach_floating_sel_bound:
  assumes "item_attached (drawable s)" and "floating_selection (drawable s) = None"
  shows "floating_selection (drawable (gimp_drawable_attach_floating_sel f s)) = Some f"
    and "image_floating_sel (gimage (gimp_drawable_attach_floating_sel f s)) = Some f"
    and "item_attached (drawable (gimp_drawable_attach_floating_sel f s))"
    and "source_node (drawable (gimp_drawable_attach_floating_sel f s)) = source_node (drawable s)"
    and "item_offset_x (drawable (gimp_drawable_attach_floating_sel f s)) = item_offset_x (drawable s)"
    and "item_offset_y (drawable (gimp_drawable_attach_floating_sel f s)) = item_offset_y (drawable s)"
    and "item_width (drawable (gimp_drawable_attach_floating_sel f s)) = item_width (drawable s)"
    and "item_height (drawable (gimp_drawable_attach_floating_sel f s)) = item_height (drawable s)"
    and "layer_offset_x (layers (gimp_drawable_attach_floating_sel f s) g) = layer_offset_x (layers s g)"
    and "layer_offset_y (layers (gimp_drawable_attach_floating_sel f s) g) = layer_offset_y (layers s g)"
    and "g_log (gimp_drawable_attach_floating_sel f s) = g_log s"
  using assms
  by (simp_all add: gimp_drawable_attach_floating_sel_def Let_def gimp_drawable_get_floating_sel_def
      sync_source_node_frame sync_source_node_layers gimp_image_set_floating_selection_def
      gimp_drawable_invalidate_boundary_def)

lemma example_bound_eval:
  "source_node (drawable example_bound)"
  "floating_selection (drawable example_bound) = Some 7"
  "image_floating_sel (gimage example_bound) = Some 7"
  "item_attached (drawable example_bound)"
  "item_offset_x (drawable example_bound) = 0"
  "item_offset_y (drawable example_bound) = 0"
  "item_width (drawable example_bound) = 100"
  "item_height (drawable example_bound) = 100"
  "layer_offset_x (layers example_bound 7) = 10"
  "layer_offset_y (layers example_bound 7) = 10"
  "g_log example_bound = []"
proof -
  have a: "item_attached (drawable (gimp_drawable_get_source_node example_world))"
    and n: "floating_selection (drawable (gimp_drawable_get_source_node example_world)) = None"
    by (simp_all add: get_source_node_frame example_world_def example_drawable_def)
  note b = attach_floating_sel_bound [OF a n, of 7, folded example_bound_def]
  show "source_node (drawable example_bound)"
    "floating_selection (drawable example_bound) = Some 7"
    "image_floating_sel (gimage example_bound) = Some 7"
    "item_attached (drawable example_bound)"
    "item_offset_x (drawable example_bound) = 0"
    "item_offset_y (drawable example_bound) = 0"
    "item_width (drawable example_bound) = 100"
    "item_height (drawable example_bound) = 100"
    "layer_offset_x (layers example_bound 7) = 10"
    "layer_offset_y (layers example_bound 7) = 10"
    "g_log example_bound = []"
    by (simp_all add: b get_source_node_frame example_world_def example_drawable_def example_layer_def)
qed

lemma get_node_topology:
  assumes "item_visible (drawable s)"
  shows "item_node (drawable (gimp_drawable_get_node s))"
    and "item_visible (drawable (gimp_drawable_get_node s))"
    and "connections (gimp_drawable_get_node s) (ModeNode, ''input'') = Some (ItemInputProxy, ''output'')"
    and "connections (gimp_drawable_get_node s) (ItemOutputProxy, ''input'') = Some (ModeNode, ''output'')"
  using assms
  by (simp_all add: gimp_drawable_get_node_def Let_def graph_defs g_log_add_def)

section \<open>The claims about the node graphs\<close>




text \<open>
  Claim C7. For a visible drawable whose node exists, with the input proxy connected
  to the mode node and the mode node to the output proxy as \<^verbatim>\<open>gimp_drawable_get_node\<close>
  leaves them, setting the visibility to false connects the input proxy straight to
  the output proxy and leaves the mode node's input unconnected, and setting it back
  to true restores the state from before the toggle, connections included.
\<close>

theorem C7_visibility_toggle:
  assumes node: "item_node (drawable s)" and vis: "item_visible (drawable s)"
    and c1: "connections s (ModeNode, ''input'') = Some (ItemInputProxy, ''output'')"
    and c2: "connections s (ItemOutputProxy, ''input'') = Some (ModeNode, ''output'')"
  shows "connections (gimp_item_set_visible False s) (ItemOutputProxy, ''input'') =
           Some (ItemInputProxy, ''output'') \<and>
         connections (gimp_item_set_visible False s) (ModeNode, ''input'') = None \<and>
         gimp_item_set_visible True (gimp_item_set_visible False s) = s"
proof (intro conjI)
  show "connections (gimp_item_set_visible False s) (ItemOutputProxy, ''input'') =
           Some (ItemInputProxy, ''output'')"
    using node by (simp add: gimp_item_set_visible_def gimp_drawable_visibility_changed_def graph_defs)
  show "connections (gimp_item_set_visible False s) (ModeNode, ''input'') = None"
    using node by (simp add: gimp_item_set_visible_def gimp_drawable_visibility_changed_def graph_defs)
  have d: "drawable (gimp_item_set_visible True (gimp_item_set_visible False s)) = drawable s"
    using node vis
    by (simp add: gimp_item_set_visible_def gimp_drawable_visibility_changed_def graph_defs)
  have c: "connections (gimp_item_set_visible True (gimp_item_set_visible False s)) = connections s"
  proof
    fix pad
    show "connections (gimp_item_set_visible True (gimp_item_set_visible False s)) pad = connections s pad"
      using node c1 c2
      by (simp add: gimp_item_set_visible_def gimp_drawable_visibility_changed_def graph_defs)
  qed
  have rest: "gimp_item_set_visible True (gimp_item_set_visible False s) =
      s\<lparr>drawable := drawable (gimp_item_set_visible True (gimp_item_set_visible False s)),
        connections := connections (gimp_item_set_visible True (gimp_item_set_visible False s))\<rparr>"
    using node
    by (simp add: gimp_item_set_visible_def gimp_drawable_visibility_changed_def graph_defs)
  show "gimp_item_set_visible True (gimp_item_set_visible False s) = s"
    by (subst rest) (simp add: d c)
qed

theorem C7_witness:
  "item_node (drawable (gimp_drawable_get_node example_world)) \<and>
   item_visible (drawable (gimp_drawable_get_node example_world)) \<and>
   connections (gimp_drawable_get_node example_world) (ModeNode, ''input'') =
     Some (ItemInputProxy, ''output'') \<and>
   connections (gimp_drawable_get_node example_world) (ItemOutputProxy, ''input'') =
     Some (ModeNode, ''output'') \<and>
   connections (gimp_item_set_visible False (gimp_drawable_get_node example_world))
     (ItemOutputProxy, ''input'') = Some (ItemInputProxy, ''output'') \<and>
   gimp_item_set_visible True (gimp_item_set_visible False (gimp_drawable_get_node example_world)) =
     gimp_drawable_get_node example_world"
proof -
  have v: "item_visible (drawable example_world)"
    by (simp add: example_world_def example_drawable_def)
  show ?thesis
    using C7_visibility_toggle [OF get_node_topology [OF v]] get_node_topology [OF v]
    by simp
qed

text \<open>
  Claim C8. Attaching a floating selection to a drawable that already has one fails
  at a \<^verbatim>\<open>g_return_if_fail\<close> check: a critical message is logged and nothing else
  changes, neither the drawable with its binding, nor the layers, nor the image with
  its floating-selection reference, nor the graphs.
\<close>

theorem C8_attach_second_fails:
  assumes "gimp_drawable_get_floating_sel s \<noteq> None"
  shows "gimp_drawable_attach_floating_sel f s =
           g_return_if_fail_warning ''gimp_drawable_attach_floating_sel''
             (if item_attached (drawable s) then ''gimp_drawable_get_floating_sel (drawable) == NULL''
              else ''gimp_item_is_attached (GIMP_ITEM (drawable))'') s \<and>
         drawable (gimp_drawable_attach_floating_sel f s) = drawable s \<and>
         layers (gimp_drawable_attach_floating_sel f s) = layers s \<and>
         gimage (gimp_drawable_attach_floating_sel f s) = gimage s \<and>
         connections (gimp_drawable_attach_floating_sel f s) = connections s \<and>
         node_parent (gimp_drawable_attach_floating_sel f s) = node_parent s"
  using assms
  by (simp add: gimp_drawable_attach_floating_sel_def g_return_if_fail_warning_def g_log_add_def)

theorem C8_witness:
  "gimp_drawable_get_floating_sel example_bound \<noteq> None \<and>
   floating_selection (drawable (gimp_drawable_attach_floating_sel 8 example_bound)) = Some 7 \<and>
   image_floating_sel (gimage (gimp_drawable_attach_floating_sel 8 example_bound)) = Some 7 \<and>
   connections (gimp_drawable_attach_floating_sel 8 example_bound) = connections example_bound \<and>
   g_log (gimp_drawable_attach_floating_sel 8 example_bound) =
     [(G_LOG_LEVEL_CRITICAL,
       ''gimp_drawable_attach_floating_sel: assertion gimp_drawable_get_floating_sel (drawable) == NULL failed'')]"
  using C8_attach_second_fails [of example_bound 8] example_bound_eval
  by (simp add: gimp_drawable_get_floating_sel_def g_return_if_fail_warning_def g_log_add_def)

end
